theory Spec2Isabelle
  imports Main
begin

section \<open>Values and exceptions of the Python programs\<close>

text \<open>
  The repository is a series of Python scripts. Step 2 (\<^verbatim>\<open>step_2_add_encryption.py\<close>)
  keeps the whole vault as one encrypted JSON document in a file; step 3
  (\<^verbatim>\<open>step_3_database_connection.py\<close>) keeps one encrypted row per service in SQLite.
  A Python \<^verbatim>\<open>str\<close> is a \<open>string\<close>; a Python \<^verbatim>\<open>bytes\<close> object is a list of 8-bit
  characters as well, under its own type name. Turning the one into the other is the
  work of the UTF-8 codec, which can fail in both directions.
\<close>

type_synonym bytes = "char list"

text \<open>
  What \<^verbatim>\<open>json.load\<close> and \<^verbatim>\<open>json.loads\<close> return. A Python dict keeps its insertion order
  and has each key once, so an object is a list of pairs. A JSON number is an \<^verbatim>\<open>int\<close>
  or a \<^verbatim>\<open>float\<close>; a float is the number \<open>m * 2 ^ e\<close> (\<open>Finite m e\<close>), an infinity
  (\<^verbatim>\<open>json.loads\<close> reads \<^verbatim>\<open>Infinity\<close> and \<^verbatim>\<open>1e999\<close> so) or \<^verbatim>\<open>NaN\<close>.
\<close>

datatype pyfloat =
    Finite int int
  | Infinity
  | Minus_Infinity
  | NaN

datatype json =
    JNull
  | JBool bool
  | JInt int
  | JFloat pyfloat
  | JStr string
  | JList "json list"
  | JDict "(string \<times> json) list"

text \<open>
  The exceptions the two programs can meet. \<open>ValueError_Password\<close> and
  \<open>ValueError_Salt\<close> are the two \<^verbatim>\<open>ValueError\<close>s raised by \<^verbatim>\<open>derive_fernet_key\<close>;
  \<open>ValueError_Missing\<close> is the one of \<^verbatim>\<open>get_params\<close>;
  \<open>ValueError_Malformed e\<close> is \<^verbatim>\<open>ValueError(f"Vault file is malformed: {e}")\<close> and
  \<open>InvalidToken_WrongMaster\<close> is
  \<^verbatim>\<open>InvalidToken("Wrong master password or the vault is corrupted.")\<close>, both raised by
  \<^verbatim>\<open>load_or_init_vault\<close>. The others come from the libraries and the interpreter:
  \<open>ValueError_int\<close> from \<^verbatim>\<open>int()\<close> on a string that is no integer literal or on
  \<^verbatim>\<open>NaN\<close>, \<open>OverflowError\<close> from \<^verbatim>\<open>int()\<close> on an infinity, \<open>BinasciiError\<close> from
  \<^verbatim>\<open>base64.b64decode\<close>, \<open>UnicodeEncodeError\<close> from \<^verbatim>\<open>str.encode\<close>,
  \<open>InvalidToken\<close> from \<^verbatim>\<open>Fernet.decrypt\<close>, \<open>OperationalError\<close> from \<^verbatim>\<open>sqlite3\<close>,
  and \<open>Library_raised x\<close> is what \<^verbatim>\<open>PBKDF2HMAC\<close> raises, by its class \<open>x\<close>.
\<close>

datatype library_error =
    Lib_ValueError
  | Lib_OverflowError
  | Lib_other

datatype exn =
    ValueError_Password
  | ValueError_Salt
  | ValueError_Missing string
  | ValueError_Malformed exn
  | ValueError_int
  | BinasciiError
  | JSONDecodeError
  | UnicodeDecodeError
  | UnicodeEncodeError
  | OverflowError
  | Library_raised library_error
  | KeyError string
  | TypeError
  | InvalidToken
  | InvalidToken_WrongMaster
  | FileNotFoundError
  | OperationalError

text \<open>
  \<^verbatim>\<open>except InvalidToken\<close> and \<^verbatim>\<open>except (json.JSONDecodeError, KeyError, ValueError)\<close>
  select by class: \<^verbatim>\<open>json.JSONDecodeError\<close>, \<^verbatim>\<open>UnicodeDecodeError\<close>,
  \<^verbatim>\<open>UnicodeEncodeError\<close> and \<^verbatim>\<open>binascii.Error\<close> are subclasses of \<^verbatim>\<open>ValueError\<close>;
  \<^verbatim>\<open>InvalidToken\<close> and \<^verbatim>\<open>OverflowError\<close> are not.
\<close>

fun is_InvalidToken :: "exn \<Rightarrow> bool" where
  "is_InvalidToken InvalidToken = True"
| "is_InvalidToken InvalidToken_WrongMaster = True"
| "is_InvalidToken _ = False"

fun is_ValueError :: "exn \<Rightarrow> bool" where
  "is_ValueError ValueError_Password = True"
| "is_ValueError ValueError_Salt = True"
| "is_ValueError (ValueError_Missing _) = True"
| "is_ValueError (ValueError_Malformed _) = True"
| "is_ValueError ValueError_int = True"
| "is_ValueError BinasciiError = True"
| "is_ValueError JSONDecodeError = True"
| "is_ValueError UnicodeDecodeError = True"
| "is_ValueError UnicodeEncodeError = True"
| "is_ValueError (Library_raised Lib_ValueError) = True"
| "is_ValueError _ = False"

fun is_KeyError :: "exn \<Rightarrow> bool" where
  "is_KeyError (KeyError _) = True"
| "is_KeyError _ = False"

section \<open>The libraries the programs call\<close>

text \<open>
  The packages \<^verbatim>\<open>cryptography\<close>, \<^verbatim>\<open>base64\<close> and \<^verbatim>\<open>json\<close>, the UTF-8 codec and
  \<^verbatim>\<open>int()\<close> on a string are not code of the repository: every function below takes them
  as the record \<open>L\<close>.
  \<^item> \<open>PBKDF2HMAC_init L salt iterations\<close> is what the constructor
    \<^verbatim>\<open>PBKDF2HMAC(algorithm=SHA256(), length=32, salt=salt, iterations=iterations)\<close> raises
    (\<open>None\<close> when it returns the object), and \<open>PBKDF2HMAC_derive L salt iterations data\<close>
    is \<^verbatim>\<open>.derive(data)\<close> of that object, the raw key or what it raises. The
    \<^verbatim>\<open>cryptography\<close> package takes no iteration count below 1 and none of \<open>2 ^ 31\<close> or
    more; which of the two calls raises, and what, is the package's;
  \<^item> \<open>fernet_encrypt L key entropy data\<close> is \<^verbatim>\<open>Fernet(key).encrypt(data)\<close>, where
    \<open>entropy\<close> is the initialisation vector and the time stamp that the call draws;
  \<^item> \<open>fernet_decrypt L key token\<close> is \<^verbatim>\<open>Fernet(key).decrypt(token)\<close>, \<open>None\<close> when it
    raises \<^verbatim>\<open>InvalidToken\<close>;
  \<^item> \<open>b64encode L data\<close> is \<^verbatim>\<open>base64.b64encode(data).decode("ascii")\<close>;
    \<open>b64decode L text\<close> is \<^verbatim>\<open>base64.b64decode(text)\<close>, \<open>None\<close> when it raises
    \<^verbatim>\<open>binascii.Error\<close>;
  \<^item> \<open>utf8_encode L s\<close> is \<^verbatim>\<open>s.encode("utf-8")\<close>, \<open>None\<close> when it raises
    \<^verbatim>\<open>UnicodeEncodeError\<close> (a string with a lone surrogate); \<open>utf8_decode L data\<close> is
    \<^verbatim>\<open>data.decode("utf-8")\<close>, \<open>None\<close> when it raises \<^verbatim>\<open>UnicodeDecodeError\<close>;
  \<^item> \<open>json_dumps L v\<close> is \<^verbatim>\<open>json.dumps(v)\<close>, \<open>json_dumps_indent2 L v\<close> is the text
    \<^verbatim>\<open>json.dump(v, f, indent=2)\<close> writes, and \<open>json_loads L text\<close> is
    \<^verbatim>\<open>json.loads(text)\<close>, \<open>None\<close> when it raises \<^verbatim>\<open>json.JSONDecodeError\<close>;
  \<^item> \<open>int_of_str L s\<close> is \<^verbatim>\<open>int(s)\<close> for a string, \<open>None\<close> when it raises
    \<^verbatim>\<open>ValueError\<close>.
\<close>

record library =
  PBKDF2HMAC_init :: "bytes \<Rightarrow> int \<Rightarrow> library_error option"
  PBKDF2HMAC_derive :: "bytes \<Rightarrow> int \<Rightarrow> bytes \<Rightarrow> library_error + bytes"
  urlsafe_b64encode :: "bytes \<Rightarrow> bytes"
  fernet_encrypt :: "bytes \<Rightarrow> bytes \<Rightarrow> bytes \<Rightarrow> bytes"
  fernet_decrypt :: "bytes \<Rightarrow> bytes \<Rightarrow> bytes option"
  b64encode :: "bytes \<Rightarrow> string"
  b64decode :: "string \<Rightarrow> bytes option"
  utf8_encode :: "string \<Rightarrow> bytes option"
  utf8_decode :: "bytes \<Rightarrow> string option"
  json_dumps :: "json \<Rightarrow> string"
  json_dumps_indent2 :: "json \<Rightarrow> string"
  json_loads :: "string \<Rightarrow> json option"
  int_of_str :: "string \<Rightarrow> int option"

section \<open>Key derivation (both programs)\<close>

definition KDF_ITERATIONS :: int where
  "KDF_ITERATIONS = 200000"

definition SALT_BYTES :: nat where
  "SALT_BYTES = 16"

text \<open>
  \<^verbatim>\<open>derive_fernet_key(password, salt, iterations)\<close>: the two guards, then the
  \<^verbatim>\<open>PBKDF2HMAC\<close> object, then the UTF-8 bytes of the password, then the raw key
  derived from them, then its URL-safe base64; each of the three calls in between raises
  what the library raises. The arguments have their annotated types here, so the two
  \<^verbatim>\<open>isinstance\<close> tests hold and \<^verbatim>\<open>int(iterations)\<close> is \<open>iterations\<close>.
\<close>

definition derive_fernet_key :: "library \<Rightarrow> string \<Rightarrow> bytes \<Rightarrow> int \<Rightarrow> exn + bytes" where
  "derive_fernet_key L password salt iterations =
     (if password = [] then Inl ValueError_Password
      else if length salt < 8 then Inl ValueError_Salt
      else
        (case PBKDF2HMAC_init L salt iterations of
           Some x \<Rightarrow> Inl (Library_raised x)
         | None \<Rightarrow>
             (case utf8_encode L password of
                None \<Rightarrow> Inl UnicodeEncodeError
              | Some data \<Rightarrow>
                  (case PBKDF2HMAC_derive L salt iterations data of
                     Inl x \<Rightarrow> Inl (Library_raised x)
                   | Inr key_raw \<Rightarrow> Inr (urlsafe_b64encode L key_raw)))))"

section \<open>Step 2: the vault document in a file\<close>

text \<open>
  \<^verbatim>\<open>new_vault_doc(ciphertext, salt, iterations)\<close>: the dict that is written to disk, its
  five keys in the order of the source.
\<close>

definition new_vault_doc :: "library \<Rightarrow> bytes \<Rightarrow> bytes \<Rightarrow> int \<Rightarrow> json" where
  "new_vault_doc L ciphertext salt iterations =
     JDict [(''version'', JInt 1),
            (''kdf'', JStr ''PBKDF2HMAC-SHA256''),
            (''iterations'', JInt iterations),
            (''salt'', JStr (b64encode L salt)),
            (''ciphertext'', JStr (b64encode L ciphertext))]"

text \<open>
  The file \<^verbatim>\<open>vault.enc.json\<close> is absent (\<open>None\<close>) or holds bytes.
  \<^verbatim>\<open>read_vault_doc\<close> opens it as UTF-8 text and parses it; \<^verbatim>\<open>write_vault_doc\<close>
  replaces its content by the UTF-8 bytes of the indented JSON text of the document,
  and returns the file.
\<close>

type_synonym vault_file = "bytes option"

definition read_vault_doc :: "library \<Rightarrow> vault_file \<Rightarrow> exn + json" where
  "read_vault_doc L file =
     (case file of
        None \<Rightarrow> Inl FileNotFoundError
      | Some raw \<Rightarrow>
          (case utf8_decode L raw of
             None \<Rightarrow> Inl UnicodeDecodeError
           | Some text \<Rightarrow>
               (case json_loads L text of
                  None \<Rightarrow> Inl JSONDecodeError
                | Some doc \<Rightarrow> Inr doc)))"

definition write_vault_doc :: "library \<Rightarrow> json \<Rightarrow> exn + vault_file" where
  "write_vault_doc L doc =
     (case utf8_encode L (json_dumps_indent2 L doc) of
        None \<Rightarrow> Inl UnicodeEncodeError
      | Some raw \<Rightarrow> Inr (Some raw))"

text \<open>
  \<^verbatim>\<open>doc[key]\<close> for a string key: a dict without the key raises \<^verbatim>\<open>KeyError\<close>, and every
  other JSON value raises \<^verbatim>\<open>TypeError\<close> (a list and a string take integer indices,
  numbers, booleans and \<^verbatim>\<open>None\<close> take none).
\<close>

fun getitem :: "json \<Rightarrow> string \<Rightarrow> exn + json" where
  "getitem (JDict items) key =
     (case map_of items key of None \<Rightarrow> Inl (KeyError key) | Some v \<Rightarrow> Inr v)"
| "getitem _ key = Inl TypeError"

text \<open>
  \<^verbatim>\<open>base64.b64decode(v)\<close> and \<^verbatim>\<open>int(v)\<close> on a value read from JSON: both raise
  \<^verbatim>\<open>TypeError\<close> on a value of the wrong kind; \<^verbatim>\<open>int\<close> takes a boolean as 0 or 1,
  parses a string, and cuts the fraction of a float off (towards zero).
\<close>

definition float_trunc :: "int \<Rightarrow> int \<Rightarrow> int" where
  "float_trunc m e =
     (if 0 \<le> e then m * 2 ^ nat e
      else if 0 \<le> m then m div 2 ^ nat (- e)
      else - ((- m) div 2 ^ nat (- e)))"

fun py_b64decode :: "library \<Rightarrow> json \<Rightarrow> exn + bytes" where
  "py_b64decode L (JStr text) =
     (case b64decode L text of None \<Rightarrow> Inl BinasciiError | Some data \<Rightarrow> Inr data)"
| "py_b64decode L _ = Inl TypeError"

fun py_int :: "library \<Rightarrow> json \<Rightarrow> exn + int" where
  "py_int L (JInt n) = Inr n"
| "py_int L (JBool b) = Inr (if b then 1 else 0)"
| "py_int L (JFloat (Finite m e)) = Inr (float_trunc m e)"
| "py_int L (JFloat NaN) = Inl ValueError_int"
| "py_int L (JFloat _) = Inl OverflowError"
| "py_int L (JStr s) =
     (case int_of_str L s of None \<Rightarrow> Inl ValueError_int | Some n \<Rightarrow> Inr n)"
| "py_int L _ = Inl TypeError"

text \<open>\<^verbatim>\<open>get_salt_and_iterations(doc)\<close>: the salt first, then the iterations.\<close>

definition get_salt_and_iterations :: "library \<Rightarrow> json \<Rightarrow> exn + (bytes \<times> int)" where
  "get_salt_and_iterations L doc =
     (case getitem doc ''salt'' of
        Inl e \<Rightarrow> Inl e
      | Inr s \<Rightarrow>
          (case py_b64decode L s of
             Inl e \<Rightarrow> Inl e
           | Inr salt \<Rightarrow>
               (case getitem doc ''iterations'' of
                  Inl e \<Rightarrow> Inl e
                | Inr i \<Rightarrow>
                    (case py_int L i of
                       Inl e \<Rightarrow> Inl e
                     | Inr iterations \<Rightarrow> Inr (salt, iterations)))))"

text \<open>
  \<^verbatim>\<open>encrypt_vault_dict(vault, password, salt, iterations)\<close>. \<open>entropy\<close> is what
  \<^verbatim>\<open>Fernet.encrypt\<close> draws. \<^verbatim>\<open>Fernet(key_b64)\<close> accepts every key that
  \<^verbatim>\<open>derive_fernet_key\<close> returns (the URL-safe base64 of 32 bytes), so the constructor is
  not a branch.
\<close>

definition encrypt_vault_dict ::
    "library \<Rightarrow> bytes \<Rightarrow> json \<Rightarrow> string \<Rightarrow> bytes \<Rightarrow> int \<Rightarrow> exn + json" where
  "encrypt_vault_dict L entropy vault password salt iterations =
     (case derive_fernet_key L password salt iterations of
        Inl e \<Rightarrow> Inl e
      | Inr key_b64 \<Rightarrow>
          (case utf8_encode L (json_dumps L vault) of
             None \<Rightarrow> Inl UnicodeEncodeError
           | Some plaintext \<Rightarrow>
               (let token = fernet_encrypt L key_b64 entropy plaintext
                in Inr (new_vault_doc L token salt iterations))))"

text \<open>\<^verbatim>\<open>decrypt_vault_dict(doc, password)\<close>, each raising call a branch.\<close>

definition decrypt_vault_dict :: "library \<Rightarrow> json \<Rightarrow> string \<Rightarrow> exn + json" where
  "decrypt_vault_dict L doc password =
     (case get_salt_and_iterations L doc of
        Inl e \<Rightarrow> Inl e
      | Inr (salt, iterations) \<Rightarrow>
          (case derive_fernet_key L password salt iterations of
             Inl e \<Rightarrow> Inl e
           | Inr key_b64 \<Rightarrow>
               (case getitem doc ''ciphertext'' of
                  Inl e \<Rightarrow> Inl e
                | Inr c \<Rightarrow>
                    (case py_b64decode L c of
                       Inl e \<Rightarrow> Inl e
                     | Inr token \<Rightarrow>
                         (case fernet_decrypt L key_b64 token of
                            None \<Rightarrow> Inl InvalidToken
                          | Some plaintext \<Rightarrow>
                              (case utf8_decode L plaintext of
                                 None \<Rightarrow> Inl UnicodeDecodeError
                               | Some text \<Rightarrow>
                                   (case json_loads L text of
                                      None \<Rightarrow> Inl JSONDecodeError
                                    | Some vault \<Rightarrow> Inr vault)))))))"

text \<open>
  \<^verbatim>\<open>load_or_init_vault(password)\<close>. \<open>new_salt\<close> is what \<^verbatim>\<open>os.urandom(SALT_BYTES)\<close>
  returns. The result is the vault and the file afterwards; an exception leaves the file
  as it was, since the only write is the last statement of the first branch. In the
  second branch the first handler takes an \<^verbatim>\<open>InvalidToken\<close>, the second a
  \<^verbatim>\<open>json.JSONDecodeError\<close>, \<^verbatim>\<open>KeyError\<close> or \<^verbatim>\<open>ValueError\<close>, and any other
  exception passes through.
\<close>

definition load_or_init_vault ::
    "library \<Rightarrow> bytes \<Rightarrow> bytes \<Rightarrow> string \<Rightarrow> vault_file \<Rightarrow> exn + (json \<times> vault_file)" where
  "load_or_init_vault L new_salt entropy password file =
     (if file = None then
        (case encrypt_vault_dict L entropy (JDict []) password new_salt KDF_ITERATIONS of
           Inl e \<Rightarrow> Inl e
         | Inr empty_doc \<Rightarrow>
             (case write_vault_doc L empty_doc of
                Inl e \<Rightarrow> Inl e
              | Inr file' \<Rightarrow> Inr (JDict [], file')))
      else
        (case (case read_vault_doc L file of
                 Inl e \<Rightarrow> Inl e
               | Inr doc \<Rightarrow> decrypt_vault_dict L doc password) of
           Inl e \<Rightarrow>
             (if is_InvalidToken e then Inl InvalidToken_WrongMaster
              else if is_KeyError e \<or> is_ValueError e then Inl (ValueError_Malformed e)
              else Inl e)
         | Inr vault \<Rightarrow> Inr (vault, file)))"

text \<open>
  \<^verbatim>\<open>save_vault(vault, password)\<close>: read the document, take its salt and iterations,
  encrypt under them, write. The result is the file afterwards.
\<close>

definition save_vault ::
    "library \<Rightarrow> bytes \<Rightarrow> json \<Rightarrow> string \<Rightarrow> vault_file \<Rightarrow> exn + vault_file" where
  "save_vault L entropy vault password file =
     (case read_vault_doc L file of
        Inl e \<Rightarrow> Inl e
      | Inr doc \<Rightarrow>
          (case get_salt_and_iterations L doc of
             Inl e \<Rightarrow> Inl e
           | Inr (salt, iterations) \<Rightarrow>
               (case encrypt_vault_dict L entropy vault password salt iterations of
                  Inl e \<Rightarrow> Inl e
                | Inr new_doc \<Rightarrow> write_vault_doc L new_doc)))"

section \<open>Step 3: one encrypted row per service in SQLite\<close>

text \<open>
  The two tables of \<^verbatim>\<open>vault.sqlite\<close>: \<^verbatim>\<open>meta(key PRIMARY KEY, value)\<close> and
  \<^verbatim>\<open>secrets(service PRIMARY KEY, ciphertext)\<close>, each a list of rows in storage order.
  A connection has the database as last committed (\<open>durable\<close>: what is on disk and what
  a later run of the program opens) and as the connection sees it (\<open>working\<close>: with the
  changes of the open transaction). \<^verbatim>\<open>sqlite3\<close> opens a transaction before the first
  \<^verbatim>\<open>UPDATE\<close>, \<^verbatim>\<open>INSERT\<close> or \<^verbatim>\<open>DELETE\<close>; \<^verbatim>\<open>conn.commit()\<close> and the normal exit of
  \<^verbatim>\<open>with conn:\<close> commit it; the exit of \<^verbatim>\<open>with conn:\<close> by an exception rolls it back.
\<close>

record database =
  meta :: "(string \<times> string) list"
  secrets :: "(string \<times> bytes) list"

record connection =
  durable :: database
  working :: database

definition commit :: "connection \<Rightarrow> connection" where
  "commit conn = conn\<lparr>durable := working conn\<rparr>"

definition rollback :: "connection \<Rightarrow> connection" where
  "rollback conn = conn\<lparr>working := durable conn\<rparr>"

text \<open>\<^verbatim>\<open>UPDATE meta SET value=? WHERE key=...\<close>\<close>

definition update_meta :: "string \<Rightarrow> string \<Rightarrow> database \<Rightarrow> database" where
  "update_meta k v db =
     db\<lparr>meta := map (\<lambda>(k', v'). if k' = k then (k', v) else (k', v')) (meta db)\<rparr>"

text \<open>\<^verbatim>\<open>UPDATE secrets SET ciphertext=? WHERE service=?\<close>\<close>

definition update_secret :: "string \<Rightarrow> bytes \<Rightarrow> database \<Rightarrow> database" where
  "update_secret service token db =
     db\<lparr>secrets := map (\<lambda>(s, c). if s = service then (s, token) else (s, c)) (secrets db)\<rparr>"

text \<open>
  \<^verbatim>\<open>INSERT INTO secrets(service, ciphertext) VALUES(?, ?) ON CONFLICT(service) DO UPDATE
  SET ciphertext=excluded.ciphertext\<close>
\<close>

definition upsert_secret :: "string \<Rightarrow> bytes \<Rightarrow> database \<Rightarrow> database" where
  "upsert_secret service token db =
     (if service \<in> fst ` set (secrets db) then update_secret service token db
      else db\<lparr>secrets := secrets db @ [(service, token)]\<rparr>)"

text \<open>\<^verbatim>\<open>DELETE FROM secrets WHERE service=?\<close>, and the \<^verbatim>\<open>rowcount\<close> of its cursor.\<close>

definition delete_secret :: "string \<Rightarrow> database \<Rightarrow> database" where
  "delete_secret service db = db\<lparr>secrets := filter (\<lambda>(s, c). s \<noteq> service) (secrets db)\<rparr>"

definition delete_rowcount :: "string \<Rightarrow> database \<Rightarrow> nat" where
  "delete_rowcount service db = length (filter (\<lambda>(s, c). s = service) (secrets db))"

text \<open>\<^verbatim>\<open>str(n)\<close> for an integer: its decimal digits.\<close>

definition digit_char :: "nat \<Rightarrow> char" where
  "digit_char d = ''0123456789'' ! d"

function str_nat :: "nat \<Rightarrow> string" where
  "str_nat n = (if n < 10 then [digit_char n] else str_nat (n div 10) @ [digit_char (n mod 10)])"
  by pat_completeness auto
termination
  by (relation "measure (\<lambda>n. n)") auto

definition str_int :: "int \<Rightarrow> string" where
  "str_int i = (if i < 0 then CHR ''-'' # str_nat (nat (- i)) else str_nat (nat i))"

text \<open>
  \<^verbatim>\<open>open_db()\<close>. \<open>disk\<close> is the database file, if there is one, and \<open>salt\<close> what
  \<^verbatim>\<open>os.urandom(SALT_BYTES)\<close> returns. A new file gets the two tables and the two rows of
  \<^verbatim>\<open>meta\<close>, committed; an existing one is opened as it is.
\<close>

definition open_db :: "library \<Rightarrow> bytes \<Rightarrow> database option \<Rightarrow> connection" where
  "open_db L salt disk =
     (case disk of
        None \<Rightarrow>
          (let db = \<lparr>meta = [(''salt'', b64encode L salt), (''iterations'', str_int KDF_ITERATIONS)],
                      secrets = []\<rparr>
           in \<lparr>durable = db, working = db\<rparr>)
      | Some db \<Rightarrow> \<lparr>durable = db, working = db\<rparr>)"

text \<open>
  \<^verbatim>\<open>get_params(conn)\<close>: the two rows of \<^verbatim>\<open>meta\<close>, the salt decoded and the iterations
  parsed.
\<close>

definition get_params :: "library \<Rightarrow> connection \<Rightarrow> exn + (bytes \<times> int)" where
  "get_params L conn =
     (case map_of (meta (working conn)) ''salt'' of
        None \<Rightarrow> Inl (ValueError_Missing ''salt'')
      | Some text \<Rightarrow>
          (case b64decode L text of
             None \<Rightarrow> Inl BinasciiError
           | Some salt \<Rightarrow>
               (case map_of (meta (working conn)) ''iterations'' of
                  None \<Rightarrow> Inl (ValueError_Missing ''iterations'')
                | Some value \<Rightarrow>
                    (case int_of_str L value of
                       None \<Rightarrow> Inl ValueError_int
                     | Some iterations \<Rightarrow> Inr (salt, iterations)))))"

text \<open>
  The first loop of \<^verbatim>\<open>change_master_password\<close>: decrypt every row under the old key.
  It ends with the plain secrets (\<open>Inr (Inr secrets_plain)\<close>), or at the first row whose
  token the old key does not open, with the name of its service (\<open>Inr (Inl service)\<close>), or
  with the \<^verbatim>\<open>UnicodeDecodeError\<close> of \<^verbatim>\<open>.decode("utf-8")\<close>, which no handler takes.
\<close>

fun collect_plain ::
    "library \<Rightarrow> bytes \<Rightarrow> (string \<times> bytes) list \<Rightarrow> (string \<times> string) list \<Rightarrow>
     exn + (string + (string \<times> string) list)" where
  "collect_plain L fernet_old [] secrets_plain = Inr (Inr secrets_plain)"
| "collect_plain L fernet_old ((service, token) # rows) secrets_plain =
     (case fernet_decrypt L fernet_old token of
        None \<Rightarrow> Inr (Inl service)
      | Some data \<Rightarrow>
          (case utf8_decode L data of
             None \<Rightarrow> Inl UnicodeDecodeError
           | Some api_key \<Rightarrow>
               collect_plain L fernet_old rows (secrets_plain @ [(service, api_key)])))"

text \<open>
  The second loop, inside \<^verbatim>\<open>with conn:\<close>. The write statements of a rotation are
  numbered from 0 (0 and 1 are the two \<^verbatim>\<open>UPDATE meta\<close>, 2 and up the
  \<^verbatim>\<open>UPDATE secrets\<close>, one per row), and \<open>fault\<close> is the number of the statement on which
  the storage layer raises, if any. \<open>entropy n\<close> is what \<^verbatim>\<open>Fernet.encrypt\<close> draws before
  statement \<open>n\<close>.
\<close>

fun reencrypt_rows ::
    "library \<Rightarrow> bytes \<Rightarrow> (nat \<Rightarrow> bytes) \<Rightarrow> nat option \<Rightarrow> nat \<Rightarrow> (string \<times> string) list \<Rightarrow>
     database \<Rightarrow> exn + database" where
  "reencrypt_rows L fernet_new entropy fault n [] db = Inr db"
| "reencrypt_rows L fernet_new entropy fault n ((service, api_key) # rest) db =
     (case utf8_encode L api_key of
        None \<Rightarrow> Inl UnicodeEncodeError
      | Some data \<Rightarrow>
          (let token = fernet_encrypt L fernet_new (entropy n) data
           in if fault = Some n then Inl OperationalError
              else reencrypt_rows L fernet_new entropy fault (Suc n) rest
                     (update_secret service token db)))"

text \<open>What \<^verbatim>\<open>change_master_password\<close> prints before it returns.\<close>

datatype rotation_report =
    Could_not_decrypt string
  | Passwords_empty_or_did_not_match
  | Master_password_updated
  | ERROR_reencrypting_rows exn

text \<open>
  \<^verbatim>\<open>change_master_password(conn, fernet_old)\<close>. A \<^verbatim>\<open>Fernet\<close> object is its key.
  \<open>new_pw_1\<close> and \<open>new_pw_2\<close> are the two passwords read (after \<^verbatim>\<open>strip()\<close>), \<open>new_salt\<close>
  is what \<^verbatim>\<open>os.urandom(SALT_BYTES)\<close> returns. The result is the exception that leaves the
  function, or the report printed and the \<^verbatim>\<open>Fernet\<close> returned, together with the connection
  afterwards. The two \<^verbatim>\<open>UPDATE meta\<close> and \<^verbatim>\<open>conn.commit()\<close> stand outside every
  \<^verbatim>\<open>try\<close>; the second loop stands inside \<^verbatim>\<open>try: with conn:\<close>, whose handler takes
  every \<^verbatim>\<open>Exception\<close>.
\<close>

definition change_master_password ::
    "library \<Rightarrow> connection \<Rightarrow> bytes \<Rightarrow> string \<Rightarrow> string \<Rightarrow> bytes \<Rightarrow> (nat \<Rightarrow> bytes) \<Rightarrow>
     nat option \<Rightarrow> (exn + (rotation_report \<times> bytes)) \<times> connection" where
  "change_master_password L conn fernet_old new_pw_1 new_pw_2 new_salt entropy fault =
     (case collect_plain L fernet_old (secrets (working conn)) [] of
        Inl e \<Rightarrow> (Inl e, conn)
      | Inr (Inl service) \<Rightarrow> (Inr (Could_not_decrypt service, fernet_old), conn)
      | Inr (Inr secrets_plain) \<Rightarrow>
          (if new_pw_1 = [] \<or> new_pw_1 \<noteq> new_pw_2 then
             (Inr (Passwords_empty_or_did_not_match, fernet_old), conn)
           else if fault = Some 0 then (Inl OperationalError, conn)
           else
             (let conn1 = conn\<lparr>working := update_meta ''salt'' (b64encode L new_salt)
                                              (working conn)\<rparr>
              in if fault = Some 1 then (Inl OperationalError, conn1)
                 else
                   (let conn2 = conn1\<lparr>working := update_meta ''iterations''
                                                      (str_int KDF_ITERATIONS) (working conn1)\<rparr>;
                        conn3 = commit conn2
                    in case derive_fernet_key L new_pw_1 new_salt KDF_ITERATIONS of
                         Inl e \<Rightarrow> (Inl e, conn3)
                       | Inr fernet_new \<Rightarrow>
                           (case reencrypt_rows L fernet_new entropy fault 2 secrets_plain
                                   (working conn3) of
                              Inl e \<Rightarrow>
                                (Inr (ERROR_reencrypting_rows e, fernet_old), rollback conn3)
                            | Inr db \<Rightarrow>
                                (Inr (Master_password_updated, fernet_new),
                                 commit (conn3\<lparr>working := db\<rparr>)))))))"

text \<open>
  The branches of the menu loop of \<^verbatim>\<open>main\<close> that touch the table, each from the values
  read (after \<^verbatim>\<open>strip()\<close>) to the line printed and the connection afterwards. The
  storage layer is taken to raise in a rotation only (\<open>fault\<close> above), so the handler of
  choice 1 has no branch here. Choice 1 stores a key; \<^verbatim>\<open>api_key_1.encode("utf-8")\<close>
  stands before its \<^verbatim>\<open>try\<close>.
\<close>

datatype store_report =
    Service_cannot_be_empty
  | Keys_empty_or_did_not_match
  | Stored string

definition store_service ::
    "library \<Rightarrow> connection \<Rightarrow> bytes \<Rightarrow> bytes \<Rightarrow> string \<Rightarrow> string \<Rightarrow> string \<Rightarrow>
     (exn + store_report) \<times> connection" where
  "store_service L conn fernet entropy service api_key_1 api_key_2 =
     (if service = [] then (Inr Service_cannot_be_empty, conn)
      else if api_key_1 = [] \<or> api_key_1 \<noteq> api_key_2 then
        (Inr Keys_empty_or_did_not_match, conn)
      else
        (case utf8_encode L api_key_1 of
           None \<Rightarrow> (Inl UnicodeEncodeError, conn)
         | Some data \<Rightarrow>
             (let token = fernet_encrypt L fernet entropy data
              in (Inr (Stored service),
                  commit (conn\<lparr>working := upsert_secret service token (working conn)\<rparr>)))))"

text \<open>Choice 2 retrieves one: \<^verbatim>\<open>fetchone()\<close> is the first row of that service.\<close>

datatype retrieve_report =
    NOT_FOUND
  | API_key string
  | Wrong_password_or_corrupted_data

definition retrieve_service :: "library \<Rightarrow> connection \<Rightarrow> bytes \<Rightarrow> string \<Rightarrow> exn + retrieve_report" where
  "retrieve_service L conn fernet service =
     (case map_of (secrets (working conn)) service of
        None \<Rightarrow> Inr NOT_FOUND
      | Some token \<Rightarrow>
          (case fernet_decrypt L fernet token of
             None \<Rightarrow> Inr Wrong_password_or_corrupted_data
           | Some data \<Rightarrow>
               (case utf8_decode L data of
                  None \<Rightarrow> Inl UnicodeDecodeError
                | Some api_key \<Rightarrow> Inr (API_key api_key))))"

text \<open>
  Choice 4 deletes one. \<open>confirmed\<close> is the answer of \<^verbatim>\<open>confirm(...)\<close>; the
  \<^verbatim>\<open>DELETE\<close> runs inside \<^verbatim>\<open>with conn:\<close>, which commits.
\<close>

datatype delete_report =
    Service_cannot_be_empty_d
  | Deleted
  | Not_found
  | Cancelled

definition delete_service :: "connection \<Rightarrow> string \<Rightarrow> bool \<Rightarrow> delete_report \<times> connection" where
  "delete_service conn svc confirmed =
     (if svc = [] then (Service_cannot_be_empty_d, conn)
      else if confirmed then
        (let rowcount = delete_rowcount svc (working conn);
             conn' = commit (conn\<lparr>working := delete_secret svc (working conn)\<rparr>)
         in (if rowcount \<noteq> 0 then Deleted else Not_found, conn'))
      else (Cancelled, conn))"

section \<open>A small library to run the programs on\<close>

text \<open>
  A stand-in for the libraries, small enough to compute with: the derived key is the
  password followed by the salt, for an iteration count from 1 to \<open>2 ^ 31 - 1\<close>, and
  a \<^verbatim>\<open>ValueError\<close> below and an \<^verbatim>\<open>OverflowError\<close> above; a token is the key followed
  by the plaintext (a key opens the tokens that begin with it); base64 text is the data
  after a \<open>b\<close>; the UTF-8 codec takes every string and every byte sequence but those with
  the byte \<open>0xFF\<close>; and JSON text is a prefix code with counted strings, read back with
  the length of the text as fuel.
\<close>

fun toy_dumps :: "json \<Rightarrow> string" where
  "toy_dumps JNull = ''n''"
| "toy_dumps (JBool b) = (if b then ''t'' else ''f'')"
| "toy_dumps (JInt i) = ''i'' @ str_int i @ '';''"
| "toy_dumps (JFloat (Finite m e)) = ''d'' @ str_int m @ ''e'' @ str_int e @ '';''"
| "toy_dumps (JFloat _) = ''?''"
| "toy_dumps (JStr s) = ''s'' @ str_nat (length s) @ '':'' @ s"
| "toy_dumps (JList vs) = ''['' @ concat (map toy_dumps vs) @ '']''"
| "toy_dumps (JDict items) =
     ''{'' @ concat (map (\<lambda>(k, v). str_nat (length k) @ '':'' @ k @ toy_dumps v) items) @ ''}''"

definition digit_of :: "char \<Rightarrow> nat option" where
  "digit_of c =
     map_of [(CHR ''0'', 0), (CHR ''1'', 1), (CHR ''2'', 2), (CHR ''3'', 3), (CHR ''4'', 4),
             (CHR ''5'', 5), (CHR ''6'', 6), (CHR ''7'', 7), (CHR ''8'', 8), (CHR ''9'', 9)] c"

fun toy_digits :: "string \<Rightarrow> nat \<Rightarrow> nat \<times> string" where
  "toy_digits [] acc = (acc, [])"
| "toy_digits (c # cs) acc =
     (case digit_of c of
        None \<Rightarrow> (acc, c # cs)
      | Some d \<Rightarrow> toy_digits cs (10 * acc + d))"

definition toy_counted :: "string \<Rightarrow> (string \<times> string) option" where
  "toy_counted s =
     (case toy_digits s 0 of
        (n, []) \<Rightarrow> None
      | (n, c # cs) \<Rightarrow>
          if c = CHR '':'' \<and> n \<le> length cs then Some (take n cs, drop n cs) else None)"

definition toy_number :: "string \<Rightarrow> (int \<times> string) option" where
  "toy_number s =
     (case s of
        [] \<Rightarrow> None
      | c # cs \<Rightarrow>
          if c = CHR ''-'' then
            (case toy_digits cs 0 of (n, r) \<Rightarrow> if r = cs then None else Some (- int n, r))
          else
            (case toy_digits s 0 of (n, r) \<Rightarrow> if r = s then None else Some (int n, r)))"

fun toy_value :: "nat \<Rightarrow> string \<Rightarrow> (json \<times> string) option"
  and toy_elems :: "nat \<Rightarrow> string \<Rightarrow> (json list \<times> string) option"
  and toy_items :: "nat \<Rightarrow> string \<Rightarrow> ((string \<times> json) list \<times> string) option" where
  "toy_value 0 s = None"
| "toy_value (Suc fuel) [] = None"
| "toy_value (Suc fuel) (c # cs) =
     (if c = CHR ''n'' then Some (JNull, cs)
      else if c = CHR ''t'' then Some (JBool True, cs)
      else if c = CHR ''f'' then Some (JBool False, cs)
      else if c = CHR ''i'' then
        (case toy_number cs of
           None \<Rightarrow> None
         | Some (i, r) \<Rightarrow>
             (case r of [] \<Rightarrow> None | d # r' \<Rightarrow> if d = CHR '';'' then Some (JInt i, r') else None))
      else if c = CHR ''d'' then
        (case toy_number cs of
           None \<Rightarrow> None
         | Some (m, r) \<Rightarrow>
             (case r of
                [] \<Rightarrow> None
              | x # r1 \<Rightarrow>
                  if x = CHR ''e'' then
                    (case toy_number r1 of
                       None \<Rightarrow> None
                     | Some (e, r2) \<Rightarrow>
                         (case r2 of
                            [] \<Rightarrow> None
                          | y # r3 \<Rightarrow>
                              if y = CHR '';'' then Some (JFloat (Finite m e), r3) else None))
                  else None))
      else if c = CHR ''s'' then
        (case toy_counted cs of None \<Rightarrow> None | Some (s, r) \<Rightarrow> Some (JStr s, r))
      else if c = CHR ''['' then
        (case toy_elems fuel cs of None \<Rightarrow> None | Some (vs, r) \<Rightarrow> Some (JList vs, r))
      else if c = CHR ''{'' then
        (case toy_items fuel cs of None \<Rightarrow> None | Some (items, r) \<Rightarrow> Some (JDict items, r))
      else None)"
| "toy_elems 0 s = None"
| "toy_elems (Suc fuel) [] = None"
| "toy_elems (Suc fuel) (c # cs) =
     (if c = CHR '']'' then Some ([], cs)
      else
        (case toy_value fuel (c # cs) of
           None \<Rightarrow> None
         | Some (v, r) \<Rightarrow>
             (case toy_elems fuel r of None \<Rightarrow> None | Some (vs, r') \<Rightarrow> Some (v # vs, r'))))"
| "toy_items 0 s = None"
| "toy_items (Suc fuel) [] = None"
| "toy_items (Suc fuel) (c # cs) =
     (if c = CHR ''}'' then Some ([], cs)
      else
        (case toy_counted (c # cs) of
           None \<Rightarrow> None
         | Some (k, r) \<Rightarrow>
             (case toy_value fuel r of
                None \<Rightarrow> None
              | Some (v, r') \<Rightarrow>
                  (case toy_items fuel r' of
                     None \<Rightarrow> None
                   | Some (items, r'') \<Rightarrow> Some ((k, v) # items, r'')))))"

definition toy_loads :: "string \<Rightarrow> json option" where
  "toy_loads text =
     (case toy_value (Suc (length text)) text of
        None \<Rightarrow> None
      | Some (v, r) \<Rightarrow> if r = [] then Some v else None)"

definition toy_int :: "string \<Rightarrow> int option" where
  "toy_int s = (case toy_number s of None \<Rightarrow> None | Some (i, r) \<Rightarrow> if r = [] then Some i else None)"

definition toy_library :: library where
  "toy_library = \<lparr>
     PBKDF2HMAC_init = (\<lambda>salt iterations. None),
     PBKDF2HMAC_derive = (\<lambda>salt iterations data.
        if iterations < 1 then Inl Lib_ValueError
        else if 2147483648 \<le> iterations then Inl Lib_OverflowError
        else Inr (data @ salt)),
     urlsafe_b64encode = (\<lambda>data. data),
     fernet_encrypt = (\<lambda>key entropy data. key @ data),
     fernet_decrypt = (\<lambda>key token.
        if take (length key) token = key then Some (drop (length key) token) else None),
     b64encode = (\<lambda>data. CHR ''b'' # data),
     b64decode = (\<lambda>text. case text of [] \<Rightarrow> None
        | c # cs \<Rightarrow> if c = CHR ''b'' then Some cs else None),
     utf8_encode = (\<lambda>s. if CHR 0xFF \<in> set s then None else Some s),
     utf8_decode = (\<lambda>data. if CHR 0xFF \<in> set data then None else Some data),
     json_dumps = toy_dumps,
     json_dumps_indent2 = toy_dumps,
     json_loads = toy_loads,
     int_of_str = toy_int
   \<rparr>"

section \<open>What is assumed of the libraries\<close>


text \<open>
  The round trip of the file: the indented JSON text of \<open>doc\<close> has UTF-8 bytes that
  decode to it, and \<^verbatim>\<open>json.load\<close> reads \<open>doc\<close> back from it.
\<close>

definition reads_back :: "library \<Rightarrow> json \<Rightarrow> bool" where
  "reads_back L doc \<longleftrightarrow>
     (case utf8_encode L (json_dumps_indent2 L doc) of
        None \<Rightarrow> False
      | Some raw \<Rightarrow> utf8_decode L raw = Some (json_dumps_indent2 L doc)) \<and>
     json_loads L (json_dumps_indent2 L doc) = Some doc"

text \<open>
  Every row that the key opens holds UTF-8 text, as every row has that the program
  wrote: \<^verbatim>\<open>main\<close> encrypts \<^verbatim>\<open>api_key_1.encode("utf-8")\<close>.
\<close>

definition rows_hold_text :: "library \<Rightarrow> bytes \<Rightarrow> (string \<times> bytes) list \<Rightarrow> bool" where
  "rows_hold_text L fernet rows =
     list_all (\<lambda>(service, token).
        case fernet_decrypt L fernet token of
          None \<Rightarrow> True
        | Some data \<Rightarrow> utf8_decode L data \<noteq> None) rows"

text \<open>
  The shape of a record of the document form: version 1, the name of the KDF, and salt
  and ciphertext as the base64 text of \<open>salt\<close> and \<open>token\<close>.
\<close>

definition record_shape :: "library \<Rightarrow> json \<Rightarrow> bytes \<Rightarrow> bytes \<Rightarrow> bool" where
  "record_shape L doc salt token \<longleftrightarrow>
     getitem doc ''version'' = Inr (JInt 1) \<and>
     getitem doc ''kdf'' = Inr (JStr ''PBKDF2HMAC-SHA256'') \<and>
     getitem doc ''salt'' = Inr (JStr (b64encode L salt)) \<and>
     getitem doc ''ciphertext'' = Inr (JStr (b64encode L token))"

section \<open>Example runs\<close>

text \<open>
  A vault file as the first run of step 2 leaves it, with the master password
  \<open>hunter2\<close>, and a file whose JSON text is the empty list.
\<close>

definition demo_salt :: bytes where
  "demo_salt = ''0123456789abcdef''"

definition demo_file :: vault_file where
  "demo_file =
     (case load_or_init_vault toy_library demo_salt ''iv'' ''hunter2'' None of
        Inl e \<Rightarrow> None
      | Inr (vault, file) \<Rightarrow> file)"

definition demo_vault :: json where
  "demo_vault = JDict [(''github'', JStr ''ghp_abc123'')]"

text \<open>The token of a vault under that password and salt, in the small library.\<close>

definition demo_token :: "json \<Rightarrow> bytes" where
  "demo_token vault = ''hunter2'' @ demo_salt @ toy_dumps vault"

definition list_file :: vault_file where
  "list_file =
     (case write_vault_doc toy_library (JList []) of
        Inl e \<Rightarrow> None
      | Inr file \<Rightarrow> file)"

text \<open>
  The same record with the iteration count stored as the float \<open>1000.5\<close>, the file
  that holds it, and that file after \<^verbatim>\<open>save_vault\<close>.
\<close>

definition demo_float_doc :: json where
  "demo_float_doc =
     JDict [(''version'', JInt 1),
            (''kdf'', JStr ''PBKDF2HMAC-SHA256''),
            (''iterations'', JFloat (Finite 2001 (- 1))),
            (''salt'', JStr (b64encode toy_library demo_salt)),
            (''ciphertext'', JStr (b64encode toy_library (demo_token (JDict []))))]"

definition demo_float_file :: vault_file where
  "demo_float_file =
     (case write_vault_doc toy_library demo_float_doc of
        Inl e \<Rightarrow> None
      | Inr file \<Rightarrow> file)"

definition demo_float_saved :: vault_file where
  "demo_float_saved =
     (case save_vault toy_library ''iv'' demo_vault ''hunter2'' demo_float_file of
        Inl e \<Rightarrow> None
      | Inr file \<Rightarrow> file)"

text \<open>
  A database as step 3 leaves it after two keys were stored under the master password
  \<open>old\<close>, and a rotation to the password \<open>new\<close> in which the \<^verbatim>\<open>UPDATE\<close> of the second
  row (statement 3) fails.
\<close>

definition demo_fernet_old :: bytes where
  "demo_fernet_old = ''old'' @ demo_salt"

definition demo_new_salt :: bytes where
  "demo_new_salt = ''fedcba9876543210''"

definition demo_conn :: connection where
  "demo_conn =
     snd (store_service toy_library
            (snd (store_service toy_library (open_db toy_library demo_salt None)
                    demo_fernet_old ''iv'' ''github'' ''ghp_abc123'' ''ghp_abc123''))
            demo_fernet_old ''iv'' ''openai'' ''sk-xyz'' ''sk-xyz'')"

definition demo_failed_rotation :: "(exn + (rotation_report \<times> bytes)) \<times> connection" where
  "demo_failed_rotation =
     change_master_password toy_library demo_conn demo_fernet_old ''new'' ''new'' demo_new_salt
       (\<lambda>n. ''iv'') (Some 3)"

text \<open>
  The same database with the token of one row overwritten, the same database with an
  iteration count of 1000 stored, and a rotation of that one in which nothing fails.
\<close>

definition demo_tampered :: connection where
  "demo_tampered = commit (demo_conn\<lparr>working := update_secret ''openai'' ''tampered'' (working demo_conn)\<rparr>)"

definition demo_conn_1000 :: connection where
  "demo_conn_1000 = commit (demo_conn\<lparr>working := update_meta ''iterations'' ''1000'' (working demo_conn)\<rparr>)"

definition demo_rotation :: "(exn + (rotation_report \<times> bytes)) \<times> connection" where
  "demo_rotation =
     change_master_password toy_library demo_conn_1000 demo_fernet_old ''new'' ''new'' demo_new_salt
       (\<lambda>n. ''iv'') None"

section \<open>Properties of key derivation\<close>

lemma derive_fernet_key_returns:
  assumes "password \<noteq> []" and "8 \<le> length salt"
    and "PBKDF2HMAC_init L salt iterations = None"
    and "utf8_encode L password = Some data"
    and "PBKDF2HMAC_derive L salt iterations data = Inr key_raw"
  shows "derive_fernet_key L password salt iterations = Inr (urlsafe_b64encode L key_raw)"
  using assms by (simp add: derive_fernet_key_def)

lemma derive_fernet_key_library_raises:
  assumes "password \<noteq> []" and "8 \<le> length salt"
    and "PBKDF2HMAC_init L salt iterations = None"
    and "utf8_encode L password = Some data"
    and "PBKDF2HMAC_derive L salt iterations data = Inl x"
  shows "derive_fernet_key L password salt iterations = Inl (Library_raised x)"
  using assms by (simp add: derive_fernet_key_def)

lemma derive_fernet_key_Inr:
  assumes "derive_fernet_key L password salt iterations = Inr key"
  shows "password \<noteq> [] \<and> 8 \<le> length salt \<and> PBKDF2HMAC_init L salt iterations = None \<and>
         (\<exists>data key_raw. utf8_encode L password = Some data \<and>
            PBKDF2HMAC_derive L salt iterations data = Inr key_raw \<and>
            key = urlsafe_b64encode L key_raw)"
  using assms
  by (auto simp: derive_fernet_key_def split: if_splits option.splits sum.splits)

lemma derive_fernet_key_not_InvalidToken:
  "derive_fernet_key L password salt iterations = Inl e \<Longrightarrow> \<not> is_InvalidToken e"
  by (auto simp: derive_fernet_key_def split: if_splits option.splits sum.splits)

text \<open>
  C4. What \<^verbatim>\<open>derive_fernet_key\<close> does, for every library: it raises the
  \<^verbatim>\<open>ValueError\<close> of the password exactly when the password is empty, and that of the
  salt exactly when the password is not empty and the salt is shorter than 8 bytes; it
  returns a key exactly when neither guard fires, the constructor of \<^verbatim>\<open>PBKDF2HMAC\<close>
  accepts the salt and the iteration count, the password has a UTF-8 encoding and
  \<^verbatim>\<open>kdf.derive\<close> returns; and past the two guards every exception is the
  \<^verbatim>\<open>UnicodeEncodeError\<close> of \<^verbatim>\<open>password.encode\<close> or one that the key derivation of the
  library raised. The function reads the password, the salt and the iteration count only,
  so whether the password is the one a vault was sealed with has no part in it.
\<close>

theorem derive_fernet_key_outcome:
  "(derive_fernet_key L password salt iterations = Inl ValueError_Password \<longleftrightarrow> password = []) \<and>
   (derive_fernet_key L password salt iterations = Inl ValueError_Salt \<longleftrightarrow>
      password \<noteq> [] \<and> length salt < 8) \<and>
   ((\<exists>key. derive_fernet_key L password salt iterations = Inr key) \<longleftrightarrow>
      password \<noteq> [] \<and> 8 \<le> length salt \<and> PBKDF2HMAC_init L salt iterations = None \<and>
      (\<exists>data key_raw. utf8_encode L password = Some data \<and>
         PBKDF2HMAC_derive L salt iterations data = Inr key_raw)) \<and>
   (password \<noteq> [] \<and> 8 \<le> length salt \<longrightarrow>
      (\<forall>e. derive_fernet_key L password salt iterations = Inl e \<longrightarrow>
         e = UnicodeEncodeError \<or> (\<exists>x. e = Library_raised x)))"
proof (intro conjI)
  show "derive_fernet_key L password salt iterations = Inl ValueError_Password \<longleftrightarrow> password = []"
    by (auto simp: derive_fernet_key_def split: if_splits option.splits sum.splits)
  show "derive_fernet_key L password salt iterations = Inl ValueError_Salt \<longleftrightarrow>
      password \<noteq> [] \<and> length salt < 8"
    by (auto simp: derive_fernet_key_def split: if_splits option.splits sum.splits)
  show "(\<exists>key. derive_fernet_key L password salt iterations = Inr key) \<longleftrightarrow>
      password \<noteq> [] \<and> 8 \<le> length salt \<and> PBKDF2HMAC_init L salt iterations = None \<and>
      (\<exists>data key_raw. utf8_encode L password = Some data \<and>
         PBKDF2HMAC_derive L salt iterations data = Inr key_raw)"
    using derive_fernet_key_Inr [of L password salt iterations]
      derive_fernet_key_returns [of password salt L iterations]
    by blast
  show "password \<noteq> [] \<and> 8 \<le> length salt \<longrightarrow>
      (\<forall>e. derive_fernet_key L password salt iterations = Inl e \<longrightarrow>
         e = UnicodeEncodeError \<or> (\<exists>x. e = Library_raised x))"
    by (auto simp: derive_fernet_key_def split: if_splits option.splits sum.splits)
qed

lemma toy_derive:
  "derive_fernet_key toy_library ''wrong'' demo_salt 200000 = Inr (''wrong'' @ demo_salt)"
  "derive_fernet_key toy_library ''hunter2'' demo_salt 200000 = Inr (''hunter2'' @ demo_salt)"
  "derive_fernet_key toy_library ''hunter2'' demo_salt 1000 = Inr (''hunter2'' @ demo_salt)"
  by (simp_all add: derive_fernet_key_def toy_library_def demo_salt_def)

text \<open>
  On the small library: the password \<open>wrong\<close> derives a key with the salt of the
  example and 200000 iterations; the empty password and a salt of 5 bytes raise their
  \<^verbatim>\<open>ValueError\<close>; with 0 iterations, which the library refuses, no key is returned.
\<close>

theorem derive_fernet_key_outcome_witness:
  "(''wrong'' \<noteq> [] \<and> 8 \<le> length demo_salt \<and> length ''short'' < 8 \<and>
    PBKDF2HMAC_init toy_library demo_salt 200000 = None \<and>
    utf8_encode toy_library ''wrong'' = Some ''wrong'' \<and>
    PBKDF2HMAC_derive toy_library demo_salt 200000 ''wrong'' = Inr (''wrong'' @ demo_salt) \<and>
    PBKDF2HMAC_derive toy_library demo_salt 0 ''wrong'' = Inl Lib_ValueError) \<and>
   (\<exists>key. derive_fernet_key toy_library ''wrong'' demo_salt 200000 = Inr key) \<and>
   derive_fernet_key toy_library [] demo_salt 200000 = Inl ValueError_Password \<and>
   derive_fernet_key toy_library ''wrong'' ''short'' 200000 = Inl ValueError_Salt \<and>
   (\<nexists>key. derive_fernet_key toy_library ''wrong'' demo_salt 0 = Inr key)"
proof -
  have hyps: "''wrong'' \<noteq> []" "8 \<le> length demo_salt" "length ''short'' < 8"
    "PBKDF2HMAC_init toy_library demo_salt 200000 = None"
    "utf8_encode toy_library ''wrong'' = Some ''wrong''"
    "PBKDF2HMAC_derive toy_library demo_salt 200000 ''wrong'' = Inr (''wrong'' @ demo_salt)"
    "PBKDF2HMAC_derive toy_library demo_salt 0 ''wrong'' = Inl Lib_ValueError"
    by (simp_all add: toy_library_def demo_salt_def)
  have none: "\<nexists>data key_raw. utf8_encode toy_library ''wrong'' = Some data \<and>
      PBKDF2HMAC_derive toy_library demo_salt 0 data = Inr key_raw"
    using hyps(5,7) by simp
  from derive_fernet_key_outcome [of toy_library "''wrong''" demo_salt 200000]
    derive_fernet_key_outcome [of toy_library "[]" demo_salt 200000]
    derive_fernet_key_outcome [of toy_library "''wrong''" "''short''" 200000]
    derive_fernet_key_outcome [of toy_library "''wrong''" demo_salt 0] hyps none
  show ?thesis by blast
qed

text \<open>
  C4, against the claim as written: with a non-empty password, a salt of 16 bytes and
  the positive iteration count \<open>2 ^ 31\<close> the derivation does not return a key (the
  \<^verbatim>\<open>OverflowError\<close> of the library), and with the count 0 it raises a \<^verbatim>\<open>ValueError\<close>
  although the password is not empty and the salt is long enough.
\<close>

theorem derive_fernet_key_iterations_counterexample:
  "''hunter2'' \<noteq> [] \<and> 8 \<le> length demo_salt \<and> (0::int) < 2147483648 \<and>
   derive_fernet_key toy_library ''hunter2'' demo_salt 2147483648 =
     Inl (Library_raised Lib_OverflowError) \<and>
   derive_fernet_key toy_library ''hunter2'' demo_salt 0 = Inl (Library_raised Lib_ValueError) \<and>
   is_ValueError (Library_raised Lib_ValueError)"
  by (simp add: derive_fernet_key_def toy_library_def demo_salt_def)

section \<open>Properties of the vault document (step 2)\<close>

lemma getitem_new_vault_doc:
  "getitem (new_vault_doc L ciphertext salt iterations) ''version'' = Inr (JInt 1)"
  "getitem (new_vault_doc L ciphertext salt iterations) ''kdf'' = Inr (JStr ''PBKDF2HMAC-SHA256'')"
  "getitem (new_vault_doc L ciphertext salt iterations) ''iterations'' = Inr (JInt iterations)"
  "getitem (new_vault_doc L ciphertext salt iterations) ''salt'' = Inr (JStr (b64encode L salt))"
  "getitem (new_vault_doc L ciphertext salt iterations) ''ciphertext'' =
     Inr (JStr (b64encode L ciphertext))"
  by (simp_all add: new_vault_doc_def)

lemma get_salt_and_iterations_new_vault_doc:
  assumes "b64decode L (b64encode L salt) = Some salt"
  shows "get_salt_and_iterations L (new_vault_doc L ciphertext salt iterations) =
           Inr (salt, iterations)"
  using assms by (simp add: get_salt_and_iterations_def getitem_new_vault_doc)

lemma record_shape_new_vault_doc:
  "record_shape L (new_vault_doc L token salt iterations) salt token"
  by (simp add: record_shape_def getitem_new_vault_doc)


lemma encrypt_vault_dict_Inr:
  assumes "encrypt_vault_dict L entropy vault password salt iterations = Inr doc"
  shows "\<exists>key plaintext.
           derive_fernet_key L password salt iterations = Inr key \<and>
           utf8_encode L (json_dumps L vault) = Some plaintext \<and>
           doc = new_vault_doc L (fernet_encrypt L key entropy plaintext) salt iterations"
  using assms by (auto simp: encrypt_vault_dict_def Let_def split: sum.splits option.splits)

lemma encrypt_vault_dict_raises:
  assumes "derive_fernet_key L password salt iterations = Inl e"
  shows "encrypt_vault_dict L entropy vault password salt iterations = Inl e"
  using assms by (simp add: encrypt_vault_dict_def)

lemma reads_back_file:
  assumes "reads_back L doc"
  shows "\<exists>file. write_vault_doc L doc = Inr file \<and> read_vault_doc L file = Inr doc"
  using assms
  by (auto simp: reads_back_def write_vault_doc_def read_vault_doc_def split: option.splits)

lemma save_vault_raises:
  assumes "read_vault_doc L file = Inr doc"
    and "get_salt_and_iterations L doc = Inr (salt, iterations)"
    and "derive_fernet_key L password salt iterations = Inl e"
  shows "save_vault L entropy vault password file = Inl e"
  using assms by (simp add: save_vault_def encrypt_vault_dict_raises)

lemma toy_library_round_trips:
  "\<forall>key entropy data.
     fernet_decrypt toy_library key (fernet_encrypt toy_library key entropy data) = Some data"
  "\<forall>data. b64decode toy_library (b64encode toy_library data) = Some data"
  by (simp_all add: toy_library_def)

lemma toy_codec:
  "utf8_encode toy_library s = (if CHR 0xFF \<in> set s then None else Some s)"
  "utf8_decode toy_library s = (if CHR 0xFF \<in> set s then None else Some s)"
  "json_dumps toy_library = toy_dumps"
  "json_dumps_indent2 toy_library = toy_dumps"
  "json_loads toy_library = toy_loads"
  "b64encode toy_library data = CHR ''b'' # data"
  by (simp_all add: toy_library_def)

lemmas toy_eval = toy_loads_def toy_counted_def toy_number_def digit_of_def digit_char_def
  str_int_def



lemma seal_empty_vault:
  "encrypt_vault_dict toy_library ''iv'' (JDict []) ''hunter2'' demo_salt KDF_ITERATIONS =
     Inr (new_vault_doc toy_library (demo_token (JDict [])) demo_salt KDF_ITERATIONS)"
  by (simp add: encrypt_vault_dict_def toy_derive KDF_ITERATIONS_def toy_codec demo_token_def,
      simp add: toy_library_def)

lemma seal_demo_vault:
  "encrypt_vault_dict toy_library ''iv'' demo_vault ''hunter2'' demo_salt KDF_ITERATIONS =
     Inr (new_vault_doc toy_library (demo_token demo_vault) demo_salt KDF_ITERATIONS)"
  "encrypt_vault_dict toy_library ''iv'' demo_vault ''hunter2'' demo_salt 1000 =
     Inr (new_vault_doc toy_library (demo_token demo_vault) demo_salt 1000)"
  by (simp_all add: encrypt_vault_dict_def toy_derive KDF_ITERATIONS_def toy_codec demo_token_def
      demo_vault_def toy_eval, simp_all add: toy_library_def)

lemma write_demo_docs:
  "write_vault_doc toy_library
     (new_vault_doc toy_library (demo_token (JDict [])) demo_salt KDF_ITERATIONS) =
   Inr (Some (toy_dumps
     (new_vault_doc toy_library (demo_token (JDict [])) demo_salt KDF_ITERATIONS)))"
  "write_vault_doc toy_library
     (new_vault_doc toy_library (demo_token demo_vault) demo_salt KDF_ITERATIONS) =
   Inr (Some (toy_dumps
     (new_vault_doc toy_library (demo_token demo_vault) demo_salt KDF_ITERATIONS)))"
  "write_vault_doc toy_library (new_vault_doc toy_library (demo_token demo_vault) demo_salt 1000) =
   Inr (Some (toy_dumps (new_vault_doc toy_library (demo_token demo_vault) demo_salt 1000)))"
  "write_vault_doc toy_library demo_float_doc = Inr (Some (toy_dumps demo_float_doc))"
  "write_vault_doc toy_library (JList []) = Inr (Some (toy_dumps (JList [])))"
  by (simp_all add: write_vault_doc_def new_vault_doc_def demo_float_doc_def demo_token_def
      demo_vault_def demo_salt_def KDF_ITERATIONS_def toy_codec toy_eval)

lemma demo_file_text:
  "demo_file = Some (toy_dumps
     (new_vault_doc toy_library (demo_token (JDict [])) demo_salt KDF_ITERATIONS))"
  by (simp add: demo_file_def load_or_init_vault_def seal_empty_vault write_demo_docs)

lemma demo_file_eq:
  "load_or_init_vault toy_library demo_salt ''iv'' ''hunter2'' None = Inr (JDict [], demo_file)"
  by (simp add: demo_file_text load_or_init_vault_def seal_empty_vault write_demo_docs)

lemma read_demo_docs:
  "read_vault_doc toy_library demo_file =
     Inr (new_vault_doc toy_library (demo_token (JDict [])) demo_salt KDF_ITERATIONS)"
  "read_vault_doc toy_library (Some (toy_dumps
       (new_vault_doc toy_library (demo_token demo_vault) demo_salt KDF_ITERATIONS))) =
     Inr (new_vault_doc toy_library (demo_token demo_vault) demo_salt KDF_ITERATIONS)"
  "read_vault_doc toy_library (Some (toy_dumps
       (new_vault_doc toy_library (demo_token demo_vault) demo_salt 1000))) =
     Inr (new_vault_doc toy_library (demo_token demo_vault) demo_salt 1000)"
  "read_vault_doc toy_library (Some (toy_dumps demo_float_doc)) = Inr demo_float_doc"
  by (simp_all add: demo_file_text read_vault_doc_def new_vault_doc_def demo_float_doc_def
      demo_token_def demo_vault_def demo_salt_def KDF_ITERATIONS_def toy_codec toy_eval)

lemma demo_file_params:
  "get_salt_and_iterations toy_library
     (new_vault_doc toy_library token demo_salt iterations) = Inr (demo_salt, iterations)"
  by (rule get_salt_and_iterations_new_vault_doc) (simp add: toy_library_round_trips)

lemma reads_back_demo_docs:
  "reads_back toy_library (new_vault_doc toy_library (demo_token (JDict [])) demo_salt KDF_ITERATIONS)"
  "reads_back toy_library (new_vault_doc toy_library (demo_token demo_vault) demo_salt KDF_ITERATIONS)"
  "reads_back toy_library (new_vault_doc toy_library (demo_token demo_vault) demo_salt 1000)"
  "reads_back toy_library demo_float_doc"
  by (simp_all add: reads_back_def new_vault_doc_def demo_float_doc_def demo_token_def
      demo_vault_def demo_salt_def KDF_ITERATIONS_def toy_codec toy_eval)




lemma save_demo_file:
  "save_vault toy_library ''iv'' demo_vault ''hunter2'' demo_file =
     Inr (Some (toy_dumps
       (new_vault_doc toy_library (demo_token demo_vault) demo_salt KDF_ITERATIONS)))"
  by (simp add: save_vault_def read_demo_docs demo_file_params seal_demo_vault write_demo_docs)

text \<open>
  C7. When the file holds a record that parses to \<open>salt\<close> and \<open>iterations\<close>, the vault
  encrypts under them to \<open>new_doc\<close>, the text of \<open>new_doc\<close> reads back, and base64 decodes
  the salt it encoded, then \<^verbatim>\<open>save_vault\<close> writes a file that reads back as \<open>new_doc\<close>:
  its salt and iterations parse to the same \<open>salt\<close> and \<open>iterations\<close>, its fields are
  the base64 text of \<open>salt\<close> and the integer \<open>iterations\<close> (equal to the fields of before
  when those were stored in that form), and its ciphertext is the token of the vault under
  the key of the password.
\<close>

theorem save_vault_keeps_kdf_parameters:
  assumes "read_vault_doc L file = Inr doc"
    and "get_salt_and_iterations L doc = Inr (salt, iterations)"
    and "encrypt_vault_dict L entropy vault password salt iterations = Inr new_doc"
    and "reads_back L new_doc"
    and "b64decode L (b64encode L salt) = Some salt"
  shows "\<exists>file'.
           save_vault L entropy vault password file = Inr file' \<and>
           read_vault_doc L file' = Inr new_doc \<and>
           get_salt_and_iterations L new_doc = Inr (salt, iterations) \<and>
           getitem new_doc ''salt'' = Inr (JStr (b64encode L salt)) \<and>
           getitem new_doc ''iterations'' = Inr (JInt iterations) \<and>
           (getitem doc ''salt'' = Inr (JStr (b64encode L salt)) \<longrightarrow>
              getitem new_doc ''salt'' = getitem doc ''salt'') \<and>
           (getitem doc ''iterations'' = Inr (JInt iterations) \<longrightarrow>
              getitem new_doc ''iterations'' = getitem doc ''iterations'') \<and>
           (\<exists>key plaintext.
              derive_fernet_key L password salt iterations = Inr key \<and>
              utf8_encode L (json_dumps L vault) = Some plaintext \<and>
              getitem new_doc ''ciphertext'' =
                Inr (JStr (b64encode L (fernet_encrypt L key entropy plaintext))))"
proof -
  from encrypt_vault_dict_Inr [OF assms(3)] obtain key plaintext where
    key: "derive_fernet_key L password salt iterations = Inr key"
    and plain: "utf8_encode L (json_dumps L vault) = Some plaintext"
    and new: "new_doc = new_vault_doc L (fernet_encrypt L key entropy plaintext) salt iterations"
    by blast
  from reads_back_file [OF assms(4)] obtain file' where
    written: "write_vault_doc L new_doc = Inr file'" and readback: "read_vault_doc L file' = Inr new_doc"
    by blast
  have "save_vault L entropy vault password file = Inr file'"
    by (simp add: save_vault_def assms(1,2,3) written)
  moreover have "get_salt_and_iterations L new_doc = Inr (salt, iterations)"
    unfolding new using assms(5) by (rule get_salt_and_iterations_new_vault_doc)
  moreover have "getitem new_doc ''salt'' = Inr (JStr (b64encode L salt))"
    and "getitem new_doc ''iterations'' = Inr (JInt iterations)"
    and "getitem new_doc ''ciphertext'' =
      Inr (JStr (b64encode L (fernet_encrypt L key entropy plaintext)))"
    unfolding new by (rule getitem_new_vault_doc)+
  ultimately show ?thesis using readback key plain by auto
qed

text \<open>
  On the small library: saving a vault of one entry to the file of the first run, whose
  salt and iterations are stored as the program writes them and so are the same fields
  afterwards.
\<close>

theorem save_vault_keeps_kdf_parameters_witness:
  "(read_vault_doc toy_library demo_file =
      Inr (new_vault_doc toy_library (demo_token (JDict [])) demo_salt KDF_ITERATIONS) \<and>
    get_salt_and_iterations toy_library
      (new_vault_doc toy_library (demo_token (JDict [])) demo_salt KDF_ITERATIONS) =
      Inr (demo_salt, KDF_ITERATIONS) \<and>
    encrypt_vault_dict toy_library ''iv'' demo_vault ''hunter2'' demo_salt KDF_ITERATIONS =
      Inr (new_vault_doc toy_library (demo_token demo_vault) demo_salt KDF_ITERATIONS) \<and>
    reads_back toy_library
      (new_vault_doc toy_library (demo_token demo_vault) demo_salt KDF_ITERATIONS) \<and>
    b64decode toy_library (b64encode toy_library demo_salt) = Some demo_salt \<and>
    getitem (new_vault_doc toy_library (demo_token (JDict [])) demo_salt KDF_ITERATIONS)
      ''salt'' = Inr (JStr (b64encode toy_library demo_salt)) \<and>
    getitem (new_vault_doc toy_library (demo_token (JDict [])) demo_salt KDF_ITERATIONS)
      ''iterations'' = Inr (JInt KDF_ITERATIONS)) \<and>
   (\<exists>file'.
      save_vault toy_library ''iv'' demo_vault ''hunter2'' demo_file = Inr file' \<and>
      read_vault_doc toy_library file' =
        Inr (new_vault_doc toy_library (demo_token demo_vault) demo_salt KDF_ITERATIONS)) \<and>
   getitem (new_vault_doc toy_library (demo_token demo_vault) demo_salt KDF_ITERATIONS) ''salt'' =
     getitem (new_vault_doc toy_library (demo_token (JDict [])) demo_salt KDF_ITERATIONS)
       ''salt'' \<and>
   getitem (new_vault_doc toy_library (demo_token demo_vault) demo_salt KDF_ITERATIONS)
     ''iterations'' =
     getitem (new_vault_doc toy_library (demo_token (JDict [])) demo_salt KDF_ITERATIONS)
       ''iterations'' \<and>
   get_salt_and_iterations toy_library
     (new_vault_doc toy_library (demo_token demo_vault) demo_salt KDF_ITERATIONS) =
     Inr (demo_salt, KDF_ITERATIONS)"
proof -
  have b64: "b64decode toy_library (b64encode toy_library demo_salt) = Some demo_salt"
    by (simp add: toy_library_round_trips)
  have before:
    "getitem (new_vault_doc toy_library (demo_token (JDict [])) demo_salt KDF_ITERATIONS)
      ''salt'' = Inr (JStr (b64encode toy_library demo_salt))"
    "getitem (new_vault_doc toy_library (demo_token (JDict [])) demo_salt KDF_ITERATIONS)
      ''iterations'' = Inr (JInt KDF_ITERATIONS)"
    by (rule getitem_new_vault_doc)+
  from save_vault_keeps_kdf_parameters [OF read_demo_docs(1) demo_file_params seal_demo_vault(1)
      reads_back_demo_docs(2) b64]
  show ?thesis
    using read_demo_docs(1) demo_file_params seal_demo_vault(1) reads_back_demo_docs(2) b64 before
    by blast
qed

lemma demo_float_file_text: "demo_float_file = Some (toy_dumps demo_float_doc)"
  by (simp add: demo_float_file_def write_demo_docs)

lemma demo_float_params:
  "get_salt_and_iterations toy_library demo_float_doc = Inr (demo_salt, 1000)"
  by (simp add: get_salt_and_iterations_def demo_float_doc_def float_trunc_def toy_library_def)

lemma demo_float_saved_text:
  "save_vault toy_library ''iv'' demo_vault ''hunter2'' demo_float_file =
     Inr (Some (toy_dumps (new_vault_doc toy_library (demo_token demo_vault) demo_salt 1000)))"
  by (simp add: save_vault_def demo_float_file_text read_demo_docs demo_float_params
      seal_demo_vault write_demo_docs)

lemma getitem_demo_float_doc:
  "getitem demo_float_doc ''ciphertext'' =
     Inr (JStr (b64encode toy_library (demo_token (JDict []))))"
  "getitem demo_float_doc ''iterations'' = Inr (JFloat (Finite 2001 (- 1)))"
  by (simp_all add: demo_float_doc_def)

lemma toy_py_b64decode:
  "py_b64decode toy_library (JStr (b64encode toy_library data)) = Inr data"
  by (simp add: toy_library_def)

lemma toy_opens:
  "fernet_decrypt toy_library (''hunter2'' @ demo_salt) (demo_token vault) = Some (toy_dumps vault)"
  "fernet_decrypt toy_library (''wrong'' @ demo_salt) (demo_token vault) = None"
  by (simp_all add: toy_library_def demo_token_def demo_salt_def)

lemma toy_reads_empty_vault:
  "utf8_decode toy_library (toy_dumps (JDict [])) = Some (toy_dumps (JDict []))"
  "json_loads toy_library (toy_dumps (JDict [])) = Some (JDict [])"
  by (simp_all add: toy_codec toy_eval)

lemma decrypt_vault_dict_returns:
  assumes "get_salt_and_iterations L doc = Inr (salt, iterations)"
    and "derive_fernet_key L password salt iterations = Inr key"
    and "getitem doc ''ciphertext'' = Inr c"
    and "py_b64decode L c = Inr token"
    and "fernet_decrypt L key token = Some plaintext"
    and "utf8_decode L plaintext = Some utf8"
    and "json_loads L utf8 = Some vault"
  shows "decrypt_vault_dict L doc password = Inr vault"
  using assms by (simp add: decrypt_vault_dict_def)

lemma decrypt_vault_dict_wrong_key:
  assumes "get_salt_and_iterations L doc = Inr (salt, iterations)"
    and "derive_fernet_key L password salt iterations = Inr key"
    and "getitem doc ''ciphertext'' = Inr c"
    and "py_b64decode L c = Inr token"
    and "fernet_decrypt L key token = None"
  shows "decrypt_vault_dict L doc password = Inl InvalidToken"
  using assms by (simp add: decrypt_vault_dict_def)

lemma decrypt_demo_float_doc:
  "decrypt_vault_dict toy_library demo_float_doc ''hunter2'' = Inr (JDict [])"
  by (rule decrypt_vault_dict_returns [OF demo_float_params toy_derive(3)
        getitem_demo_float_doc(1) toy_py_b64decode toy_opens(1) toy_reads_empty_vault])

lemma load_demo_float_file:
  "load_or_init_vault toy_library demo_salt ''iv'' ''hunter2'' demo_float_file =
     Inr (JDict [], demo_float_file)"
  by (simp add: load_or_init_vault_def decrypt_demo_float_doc
      read_demo_docs [unfolded demo_float_file_text [symmetric]],
      simp add: demo_float_file_text)

text \<open>
  C7, against the claim as written: a record whose \<^verbatim>\<open>iterations\<close> field is the JSON
  number \<open>1000.5\<close> (the float \<open>2001 * 2 ^ -1\<close>) opens under its password, since \<^verbatim>\<open>int\<close>
  truncates the field to 1000; after \<^verbatim>\<open>save_vault\<close> the file reads back with the field
  \<open>1000\<close>, an integer, which is not the value stored before the call.
\<close>

theorem save_vault_rewrites_float_iterations_counterexample:
  "read_vault_doc toy_library demo_float_file = Inr demo_float_doc \<and>
   getitem demo_float_doc ''iterations'' = Inr (JFloat (Finite 2001 (- 1))) \<and>
   load_or_init_vault toy_library demo_salt ''iv'' ''hunter2'' demo_float_file =
     Inr (JDict [], demo_float_file) \<and>
   save_vault toy_library ''iv'' demo_vault ''hunter2'' demo_float_file = Inr demo_float_saved \<and>
   read_vault_doc toy_library demo_float_saved =
     Inr (new_vault_doc toy_library (demo_token demo_vault) demo_salt 1000) \<and>
   getitem (new_vault_doc toy_library (demo_token demo_vault) demo_salt 1000) ''iterations'' =
     Inr (JInt 1000) \<and>
   JInt 1000 \<noteq> JFloat (Finite 2001 (- 1))"
proof -
  have saved: "demo_float_saved =
      Some (toy_dumps (new_vault_doc toy_library (demo_token demo_vault) demo_salt 1000))"
    by (simp add: demo_float_saved_def demo_float_saved_text)
  have "read_vault_doc toy_library demo_float_file = Inr demo_float_doc"
    by (simp only: demo_float_file_text read_demo_docs)
  moreover have "read_vault_doc toy_library demo_float_saved =
      Inr (new_vault_doc toy_library (demo_token demo_vault) demo_salt 1000)"
    by (simp only: saved read_demo_docs)
  moreover have "save_vault toy_library ''iv'' demo_vault ''hunter2'' demo_float_file =
      Inr demo_float_saved"
    by (simp only: saved demo_float_saved_text)
  moreover have "JInt 1000 \<noteq> JFloat (Finite 2001 (- 1))"
    by simp
  ultimately show ?thesis
    using getitem_demo_float_doc(2) load_demo_float_file getitem_new_vault_doc(3) by blast
qed

lemma getitem_demo_ciphertext:
  "getitem (new_vault_doc toy_library token demo_salt iterations) ''ciphertext'' =
     Inr (JStr (b64encode toy_library token))"
  by (rule getitem_new_vault_doc)

lemma decrypt_demo_doc:
  "decrypt_vault_dict toy_library
     (new_vault_doc toy_library (demo_token (JDict [])) demo_salt KDF_ITERATIONS) ''hunter2'' =
   Inr (JDict [])"
  "decrypt_vault_dict toy_library
     (new_vault_doc toy_library (demo_token (JDict [])) demo_salt KDF_ITERATIONS) ''wrong'' =
   Inl InvalidToken"
  "decrypt_vault_dict toy_library
     (new_vault_doc toy_library (demo_token (JDict [])) demo_salt KDF_ITERATIONS) [] =
   Inl ValueError_Password"
proof -
  show "decrypt_vault_dict toy_library
     (new_vault_doc toy_library (demo_token (JDict [])) demo_salt KDF_ITERATIONS) ''hunter2'' =
   Inr (JDict [])"
    by (rule decrypt_vault_dict_returns [OF demo_file_params
          toy_derive(2) [folded KDF_ITERATIONS_def] getitem_demo_ciphertext toy_py_b64decode
          toy_opens(1) toy_reads_empty_vault])
  show "decrypt_vault_dict toy_library
     (new_vault_doc toy_library (demo_token (JDict [])) demo_salt KDF_ITERATIONS) ''wrong'' =
   Inl InvalidToken"
    by (rule decrypt_vault_dict_wrong_key [OF demo_file_params
          toy_derive(1) [folded KDF_ITERATIONS_def] getitem_demo_ciphertext toy_py_b64decode
          toy_opens(2)])
  show "decrypt_vault_dict toy_library
     (new_vault_doc toy_library (demo_token (JDict [])) demo_salt KDF_ITERATIONS) [] =
   Inl ValueError_Password"
    by (simp add: decrypt_vault_dict_def demo_file_params derive_fernet_key_def)
qed

lemma demo_file_exists: "demo_file \<noteq> None"
  by (simp add: demo_file_text)

lemma load_demo_file:
  "load_or_init_vault toy_library demo_salt ''iv'' ''hunter2'' demo_file = Inr (JDict [], demo_file)"
  "load_or_init_vault toy_library demo_salt ''iv'' ''wrong'' demo_file = Inl InvalidToken_WrongMaster"
  "load_or_init_vault toy_library demo_salt ''iv'' [] demo_file =
     Inl (ValueError_Malformed ValueError_Password)"
  by (simp_all add: load_or_init_vault_def demo_file_exists read_demo_docs decrypt_demo_doc)

text \<open>
  C9. The file that the first run (\<^verbatim>\<open>load_or_init_vault\<close> with no file) or
  \<^verbatim>\<open>save_vault\<close> leaves, read back with \<^verbatim>\<open>read_vault_doc\<close>, is a document with version
  1, KDF \<^verbatim>\<open>PBKDF2HMAC-SHA256\<close>, and salt and ciphertext as base64 text, provided the text
  of the document that was written reads back (the round trip of \<^verbatim>\<open>json.dump\<close> and
  \<^verbatim>\<open>json.load\<close> on it); opening an existing file leaves the file as it is. These are all
  the writes of step 2.
\<close>

theorem written_records_keep_the_shape:
  "(load_or_init_vault L new_salt entropy password None = Inr (vault, file') \<and>
    (\<forall>doc. encrypt_vault_dict L entropy (JDict []) password new_salt KDF_ITERATIONS = Inr doc \<longrightarrow>
           reads_back L doc) \<longrightarrow>
      (\<exists>doc token. read_vault_doc L file' = Inr doc \<and> record_shape L doc new_salt token)) \<and>
   (save_vault L entropy vault password file = Inr file' \<and>
    (\<forall>doc0 salt iterations doc.
       read_vault_doc L file = Inr doc0 \<and>
       get_salt_and_iterations L doc0 = Inr (salt, iterations) \<and>
       encrypt_vault_dict L entropy vault password salt iterations = Inr doc \<longrightarrow>
       reads_back L doc) \<longrightarrow>
      (\<exists>doc salt token. read_vault_doc L file' = Inr doc \<and> record_shape L doc salt token)) \<and>
   (file \<noteq> None \<and> load_or_init_vault L new_salt entropy password file = Inr (vault, file') \<longrightarrow>
      file' = file)"
proof (intro conjI impI)
  assume a: "load_or_init_vault L new_salt entropy password None = Inr (vault, file') \<and>
    (\<forall>doc. encrypt_vault_dict L entropy (JDict []) password new_salt KDF_ITERATIONS = Inr doc \<longrightarrow>
           reads_back L doc)"
  then obtain doc where
    sealed: "encrypt_vault_dict L entropy (JDict []) password new_salt KDF_ITERATIONS = Inr doc"
    and written: "write_vault_doc L doc = Inr file'"
    by (auto simp: load_or_init_vault_def split: sum.splits)
  from a sealed have "reads_back L doc" by blast
  from reads_back_file [OF this] written have "read_vault_doc L file' = Inr doc" by auto
  then show "\<exists>doc token. read_vault_doc L file' = Inr doc \<and> record_shape L doc new_salt token"
    using encrypt_vault_dict_Inr [OF sealed] record_shape_new_vault_doc by blast
next
  assume a: "save_vault L entropy vault password file = Inr file' \<and>
    (\<forall>doc0 salt iterations doc.
       read_vault_doc L file = Inr doc0 \<and>
       get_salt_and_iterations L doc0 = Inr (salt, iterations) \<and>
       encrypt_vault_dict L entropy vault password salt iterations = Inr doc \<longrightarrow>
       reads_back L doc)"
  then obtain doc0 salt iterations doc where
    r: "read_vault_doc L file = Inr doc0"
    and p: "get_salt_and_iterations L doc0 = Inr (salt, iterations)"
    and sealed: "encrypt_vault_dict L entropy vault password salt iterations = Inr doc"
    and written: "write_vault_doc L doc = Inr file'"
    by (auto simp: save_vault_def split: sum.splits)
  from a r p sealed have "reads_back L doc" by blast
  from reads_back_file [OF this] written have "read_vault_doc L file' = Inr doc" by auto
  then show "\<exists>doc salt token. read_vault_doc L file' = Inr doc \<and> record_shape L doc salt token"
    using encrypt_vault_dict_Inr [OF sealed] record_shape_new_vault_doc by blast
next
  assume "file \<noteq> None \<and> load_or_init_vault L new_salt entropy password file = Inr (vault, file')"
  then show "file' = file"
    by (auto simp: load_or_init_vault_def split: sum.splits if_splits)
qed

text \<open>
  On the small library: the file of the first run, the file after a vault of one
  entry was saved to it, and the first file opened again.
\<close>

theorem written_records_keep_the_shape_witness:
  "(load_or_init_vault toy_library demo_salt ''iv'' ''hunter2'' None = Inr (JDict [], demo_file) \<and>
    encrypt_vault_dict toy_library ''iv'' (JDict []) ''hunter2'' demo_salt KDF_ITERATIONS =
      Inr (new_vault_doc toy_library (demo_token (JDict [])) demo_salt KDF_ITERATIONS) \<and>
    reads_back toy_library
      (new_vault_doc toy_library (demo_token (JDict [])) demo_salt KDF_ITERATIONS)) \<and>
   (\<exists>doc token. read_vault_doc toy_library demo_file = Inr doc \<and>
      record_shape toy_library doc demo_salt token) \<and>
   (save_vault toy_library ''iv'' demo_vault ''hunter2'' demo_file =
      Inr (Some (toy_dumps
        (new_vault_doc toy_library (demo_token demo_vault) demo_salt KDF_ITERATIONS))) \<and>
    reads_back toy_library
      (new_vault_doc toy_library (demo_token demo_vault) demo_salt KDF_ITERATIONS)) \<and>
   (\<exists>doc salt token.
      read_vault_doc toy_library (Some (toy_dumps
        (new_vault_doc toy_library (demo_token demo_vault) demo_salt KDF_ITERATIONS))) = Inr doc \<and>
      record_shape toy_library doc salt token) \<and>
   (demo_file \<noteq> None \<and>
    load_or_init_vault toy_library demo_salt ''iv'' ''hunter2'' demo_file =
      Inr (JDict [], demo_file))"
proof -
  have init: "\<forall>doc. encrypt_vault_dict toy_library ''iv'' (JDict []) ''hunter2'' demo_salt
      KDF_ITERATIONS = Inr doc \<longrightarrow> reads_back toy_library doc"
    using seal_empty_vault reads_back_demo_docs(1) by simp
  have save: "\<forall>doc0 salt iterations doc.
      read_vault_doc toy_library demo_file = Inr doc0 \<and>
      get_salt_and_iterations toy_library doc0 = Inr (salt, iterations) \<and>
      encrypt_vault_dict toy_library ''iv'' demo_vault ''hunter2'' salt iterations = Inr doc \<longrightarrow>
      reads_back toy_library doc"
    using read_demo_docs(1) demo_file_params seal_demo_vault(1) reads_back_demo_docs(2) by auto
  show ?thesis
    using written_records_keep_the_shape [of toy_library demo_salt "''iv''" "''hunter2''"
        "JDict []" demo_file]
      written_records_keep_the_shape [of toy_library _ "''iv''" "''hunter2''" demo_vault
        "Some (toy_dumps
           (new_vault_doc toy_library (demo_token demo_vault) demo_salt KDF_ITERATIONS))"
        demo_file]
      init save demo_file_eq save_demo_file seal_empty_vault reads_back_demo_docs(1,2)
      demo_file_exists load_demo_file(1)
    by blast
qed

lemma load_list_file:
  "read_vault_doc toy_library list_file = Inr (JList [])"
  "load_or_init_vault toy_library demo_salt ''iv'' ''hunter2'' list_file = Inl TypeError"
  by (simp_all add: load_or_init_vault_def read_vault_doc_def list_file_def write_demo_docs
      decrypt_vault_dict_def get_salt_and_iterations_def toy_codec toy_eval)

lemma empty_password_reported_malformed:
  assumes "file \<noteq> None" and "read_vault_doc L file = Inr doc"
    and "get_salt_and_iterations L doc = Inr (salt, iterations)"
  shows "load_or_init_vault L new_salt entropy [] file =
           Inl (ValueError_Malformed ValueError_Password)"
  using assms by (auto simp: load_or_init_vault_def decrypt_vault_dict_def derive_fernet_key_def)

lemma untyped_record_raises_TypeError:
  assumes "file \<noteq> None" and "read_vault_doc L file = Inr doc" and "\<And>items. doc \<noteq> JDict items"
  shows "load_or_init_vault L new_salt entropy password file = Inl TypeError"
proof -
  have "getitem doc ''salt'' = Inl TypeError"
    using assms(3) by (cases doc) auto
  then show ?thesis
    using assms(1,2)
    by (auto simp: load_or_init_vault_def decrypt_vault_dict_def get_salt_and_iterations_def)
qed

lemma getitem_not_InvalidToken: "getitem doc key = Inl e \<Longrightarrow> \<not> is_InvalidToken e"
  by (cases doc) (auto split: option.splits)

lemma py_b64decode_not_InvalidToken: "py_b64decode L v = Inl e \<Longrightarrow> \<not> is_InvalidToken e"
  by (cases v) (auto split: option.splits)

lemma py_int_not_InvalidToken: "py_int L v = Inl e \<Longrightarrow> \<not> is_InvalidToken e"
  by (cases "(L, v)" rule: py_int.cases) (auto split: option.splits)

lemma get_salt_and_iterations_not_InvalidToken:
  "get_salt_and_iterations L doc = Inl e \<Longrightarrow> \<not> is_InvalidToken e"
  by (auto simp: get_salt_and_iterations_def split: sum.splits
      dest: getitem_not_InvalidToken py_b64decode_not_InvalidToken py_int_not_InvalidToken)

lemma read_vault_doc_not_InvalidToken:
  "read_vault_doc L file = Inl e \<Longrightarrow> \<not> is_InvalidToken e"
  by (auto simp: read_vault_doc_def split: option.splits)

lemma decrypt_vault_dict_InvalidToken:
  "(\<exists>e. decrypt_vault_dict L doc password = Inl e \<and> is_InvalidToken e) \<longleftrightarrow>
   (\<exists>salt iterations key c token.
      get_salt_and_iterations L doc = Inr (salt, iterations) \<and>
      derive_fernet_key L password salt iterations = Inr key \<and>
      getitem doc ''ciphertext'' = Inr c \<and> py_b64decode L c = Inr token \<and>
      fernet_decrypt L key token = None)"
  by (auto simp: decrypt_vault_dict_def split: sum.splits option.splits prod.splits
      dest: getitem_not_InvalidToken py_b64decode_not_InvalidToken
        get_salt_and_iterations_not_InvalidToken derive_fernet_key_not_InvalidToken)

lemma wrong_master_password_iff:
  assumes "file \<noteq> None"
  shows "load_or_init_vault L new_salt entropy password file = Inl InvalidToken_WrongMaster \<longleftrightarrow>
         (\<exists>doc salt iterations key c token.
            read_vault_doc L file = Inr doc \<and>
            get_salt_and_iterations L doc = Inr (salt, iterations) \<and>
            derive_fernet_key L password salt iterations = Inr key \<and>
            getitem doc ''ciphertext'' = Inr c \<and> py_b64decode L c = Inr token \<and>
            fernet_decrypt L key token = None)"
proof (cases "read_vault_doc L file")
  case (Inl e)
  then show ?thesis
    using assms read_vault_doc_not_InvalidToken [OF Inl]
    by (auto simp: load_or_init_vault_def split: if_splits)
next
  case (Inr doc)
  show ?thesis
  proof (cases "decrypt_vault_dict L doc password")
    case (Inl e)
    have "load_or_init_vault L new_salt entropy password file = Inl InvalidToken_WrongMaster \<longleftrightarrow>
        is_InvalidToken e"
      using assms Inr Inl by (auto simp: load_or_init_vault_def)
    also have "\<dots> \<longleftrightarrow> (\<exists>e. decrypt_vault_dict L doc password = Inl e \<and> is_InvalidToken e)"
      using Inl by simp
    finally show ?thesis
      using Inr by (simp add: decrypt_vault_dict_InvalidToken)
  next
    case (Inr vault)
    have "\<not> (\<exists>e. decrypt_vault_dict L doc password = Inl e \<and> is_InvalidToken e)"
      using Inr by simp
    then have no: "\<not> (\<exists>salt iterations key c token.
        get_salt_and_iterations L doc = Inr (salt, iterations) \<and>
        derive_fernet_key L password salt iterations = Inr key \<and>
        getitem doc ''ciphertext'' = Inr c \<and> py_b64decode L c = Inr token \<and>
        fernet_decrypt L key token = None)"
      using decrypt_vault_dict_InvalidToken [of L doc password] by blast
    have "load_or_init_vault L new_salt entropy password file = Inr (vault, file)"
      using assms \<open>read_vault_doc L file = Inr doc\<close> Inr
      by (auto simp: load_or_init_vault_def)
    then show ?thesis
      using no \<open>read_vault_doc L file = Inr doc\<close> by auto
  qed
qed

text \<open>
  C6. Runs of \<^verbatim>\<open>load_or_init_vault\<close> on an existing file. On the file that the first
  run wrote, the right password opens the vault and a wrong one raises the
  \<^verbatim>\<open>InvalidToken\<close> of a wrong password; the empty password raises
  \<^verbatim>\<open>ValueError("Vault file is malformed: ...")\<close> although the record parses (the
  \<^verbatim>\<open>ValueError\<close> of \<^verbatim>\<open>derive_fernet_key\<close> is taken by the handler for malformed
  files); and a file whose JSON text is a list, whose structure cannot be parsed, raises
  a \<^verbatim>\<open>TypeError\<close> that no handler takes, not the error of a malformed file. The
  claim asks for the error of a malformed file exactly when the structure cannot be
  parsed. The three lemmas before hold for every library: the error of a wrong password
  is raised exactly when \<^verbatim>\<open>Fernet.decrypt\<close> is reached and fails.
\<close>

theorem load_or_init_vault_misreports:
  "load_or_init_vault toy_library demo_salt ''iv'' ''hunter2'' None = Inr (JDict [], demo_file) \<and>
   load_or_init_vault toy_library demo_salt ''iv'' ''hunter2'' demo_file =
     Inr (JDict [], demo_file) \<and>
   load_or_init_vault toy_library demo_salt ''iv'' ''wrong'' demo_file =
     Inl InvalidToken_WrongMaster \<and>
   load_or_init_vault toy_library demo_salt ''iv'' [] demo_file =
     Inl (ValueError_Malformed ValueError_Password) \<and>
   read_vault_doc toy_library list_file = Inr (JList []) \<and>
   load_or_init_vault toy_library demo_salt ''iv'' ''hunter2'' list_file = Inl TypeError"
  by (simp add: demo_file_eq load_demo_file load_list_file)

section \<open>Properties of the rows (step 3)\<close>

lemma collect_plain_aborts:
  assumes "(service, token) \<in> set rows" and "fernet_decrypt L fernet_old token = None"
    and "rows_hold_text L fernet_old rows"
  shows "\<exists>s t. (s, t) \<in> set rows \<and> fernet_decrypt L fernet_old t = None \<and>
           collect_plain L fernet_old rows secrets_plain = Inr (Inl s)"
  using assms
proof (induction rows arbitrary: secrets_plain)
  case Nil
  then show ?case by simp
next
  case (Cons row rows)
  obtain s t where row: "row = (s, t)" by (cases row)
  show ?case
  proof (cases "fernet_decrypt L fernet_old t")
    case None
    then show ?thesis using row by auto
  next
    case (Some data)
    with Cons.prems row obtain api_key where key: "utf8_decode L data = Some api_key"
      by (auto simp: rows_hold_text_def)
    from Some Cons.prems row have "(service, token) \<in> set rows" by auto
    moreover from Cons.prems have "rows_hold_text L fernet_old rows"
      by (simp add: rows_hold_text_def)
    ultimately obtain s' t' where "(s', t') \<in> set rows" "fernet_decrypt L fernet_old t' = None"
      "collect_plain L fernet_old rows (secrets_plain @ [(s, api_key)]) = Inr (Inl s')"
      using Cons.IH Cons.prems(2) by blast
    then show ?thesis using row Some key by auto
  qed
qed

lemma map_of_update_row:
  "map_of (map (\<lambda>(k', v'). if k' = k then (k', v) else (k', v')) rows) k'' =
     (if k'' = k then (if k \<in> fst ` set rows then Some v else None) else map_of rows k'')"
  by (induction rows) force+

lemma meta_update_secret [simp]: "meta (update_secret service token db) = meta db"
  by (simp add: update_secret_def)

lemma secrets_update_meta [simp]: "secrets (update_meta k v db) = secrets db"
  by (simp add: update_meta_def)

lemma map_of_meta_update_meta:
  "map_of (meta (update_meta k v db)) k' =
     (if k' = k then (if k \<in> fst ` set (meta db) then Some v else None) else map_of (meta db) k')"
  by (simp add: update_meta_def map_of_update_row)

lemma reencrypt_rows_meta:
  "reencrypt_rows L fernet_new entropy fault n secrets_plain db = Inr db' \<Longrightarrow> meta db' = meta db"
proof (induction secrets_plain arbitrary: n db)
  case Nil
  then show ?case by simp
next
  case (Cons row rest)
  obtain service api_key where "row = (service, api_key)" by (cases row)
  with Cons show ?case by (auto simp: Let_def split: if_splits option.splits)
qed

lemma change_master_password_updated:
  assumes "change_master_password L conn fernet_old new_pw_1 new_pw_2 new_salt entropy fault =
             (Inr (Master_password_updated, fernet_new), conn')"
  shows "\<exists>secrets_plain db.
           collect_plain L fernet_old (secrets (working conn)) [] = Inr (Inr secrets_plain) \<and>
           derive_fernet_key L new_pw_1 new_salt KDF_ITERATIONS = Inr fernet_new \<and>
           reencrypt_rows L fernet_new entropy fault 2 secrets_plain
             (update_meta ''iterations'' (str_int KDF_ITERATIONS)
                (update_meta ''salt'' (b64encode L new_salt) (working conn))) = Inr db \<and>
           durable conn' = db \<and> working conn' = db"
  using assms
  by (auto simp: change_master_password_def Let_def commit_def rollback_def
      split: sum.splits if_splits)

lemma str_int_KDF_ITERATIONS: "str_int KDF_ITERATIONS = ''200000''"
  by (simp add: KDF_ITERATIONS_def str_int_def digit_char_def)

lemma KDF_ITERATIONS_in_range: "\<not> 2147483648 \<le> KDF_ITERATIONS" "\<not> KDF_ITERATIONS < 1"
  by (simp_all add: KDF_ITERATIONS_def)

lemma demo_conn_eq:
  "demo_conn =
     \<lparr>durable = \<lparr>meta = [(''salt'', CHR ''b'' # demo_salt), (''iterations'', ''200000'')],
                 secrets = [(''github'', demo_fernet_old @ ''ghp_abc123''),
                            (''openai'', demo_fernet_old @ ''sk-xyz'')]\<rparr>,
      working = \<lparr>meta = [(''salt'', CHR ''b'' # demo_salt), (''iterations'', ''200000'')],
                 secrets = [(''github'', demo_fernet_old @ ''ghp_abc123''),
                            (''openai'', demo_fernet_old @ ''sk-xyz'')]\<rparr>\<rparr>"
  by (simp add: demo_conn_def store_service_def open_db_def upsert_secret_def commit_def
      str_int_KDF_ITERATIONS Let_def toy_library_def)

lemma demo_failed_rotation_eq:
  "demo_failed_rotation =
     (Inr (ERROR_reencrypting_rows OperationalError, demo_fernet_old),
      \<lparr>durable = \<lparr>meta = [(''salt'', CHR ''b'' # demo_new_salt), (''iterations'', ''200000'')],
                  secrets = [(''github'', demo_fernet_old @ ''ghp_abc123''),
                             (''openai'', demo_fernet_old @ ''sk-xyz'')]\<rparr>,
       working = \<lparr>meta = [(''salt'', CHR ''b'' # demo_new_salt), (''iterations'', ''200000'')],
                  secrets = [(''github'', demo_fernet_old @ ''ghp_abc123''),
                             (''openai'', demo_fernet_old @ ''sk-xyz'')]\<rparr>\<rparr>)"
  by (simp add: demo_failed_rotation_def change_master_password_def demo_conn_eq
      derive_fernet_key_def update_meta_def update_secret_def commit_def rollback_def
      str_int_KDF_ITERATIONS KDF_ITERATIONS_in_range Let_def demo_new_salt_def toy_library_def
      demo_fernet_old_def demo_salt_def)

lemma map_of_delete_row:
  "map_of (filter (\<lambda>(s, c). s \<noteq> svc) rows) k = (if k = svc then None else map_of rows k)"
  by (induction rows) auto

lemma delete_rowcount_eq_0:
  "delete_rowcount svc db = 0 \<longleftrightarrow> svc \<notin> fst ` set (secrets db)"
  by (auto simp: delete_rowcount_def filter_empty_conv image_iff)

lemma delete_secret_absent:
  "svc \<notin> fst ` set (secrets db) \<Longrightarrow> delete_secret svc db = db"
proof -
  assume "svc \<notin> fst ` set (secrets db)"
  then have "filter (\<lambda>(s, c). s \<noteq> svc) (secrets db) = secrets db"
    by (intro filter_True) force
  then show ?thesis by (simp add: delete_secret_def)
qed

lemma demo_secrets:
  "secrets (working demo_conn) =
     [(''github'', demo_fernet_old @ ''ghp_abc123''), (''openai'', demo_fernet_old @ ''sk-xyz'')]"
  by (simp add: demo_conn_eq)

lemma demo_tampered_secrets:
  "secrets (working demo_tampered) =
     [(''github'', demo_fernet_old @ ''ghp_abc123''), (''openai'', ''tampered'')]"
  by (simp add: demo_tampered_def demo_conn_eq commit_def update_secret_def)

lemma demo_conn_1000_eq:
  "demo_conn_1000 =
     \<lparr>durable = \<lparr>meta = [(''salt'', CHR ''b'' # demo_salt), (''iterations'', ''1000'')],
                 secrets = [(''github'', demo_fernet_old @ ''ghp_abc123''),
                            (''openai'', demo_fernet_old @ ''sk-xyz'')]\<rparr>,
      working = \<lparr>meta = [(''salt'', CHR ''b'' # demo_salt), (''iterations'', ''1000'')],
                 secrets = [(''github'', demo_fernet_old @ ''ghp_abc123''),
                            (''openai'', demo_fernet_old @ ''sk-xyz'')]\<rparr>\<rparr>"
  by (simp add: demo_conn_1000_def demo_conn_eq commit_def update_meta_def)

lemma demo_rotation_eq:
  "demo_rotation =
     (Inr (Master_password_updated, ''new'' @ demo_new_salt),
      \<lparr>durable = \<lparr>meta = [(''salt'', CHR ''b'' # demo_new_salt), (''iterations'', ''200000'')],
                  secrets = [(''github'', ''new'' @ demo_new_salt @ ''ghp_abc123''),
                             (''openai'', ''new'' @ demo_new_salt @ ''sk-xyz'')]\<rparr>,
       working = \<lparr>meta = [(''salt'', CHR ''b'' # demo_new_salt), (''iterations'', ''200000'')],
                  secrets = [(''github'', ''new'' @ demo_new_salt @ ''ghp_abc123''),
                             (''openai'', ''new'' @ demo_new_salt @ ''sk-xyz'')]\<rparr>\<rparr>)"
  by (simp add: demo_rotation_def change_master_password_def demo_conn_1000_eq
      derive_fernet_key_def update_meta_def update_secret_def commit_def rollback_def
      str_int_KDF_ITERATIONS KDF_ITERATIONS_in_range Let_def demo_new_salt_def toy_library_def
      demo_fernet_old_def demo_salt_def)

lemma collect_plain_length:
  "collect_plain L fernet_old rows secrets_plain = Inr (Inr plain) \<Longrightarrow>
     length plain = length secrets_plain + length rows"
proof (induction rows arbitrary: secrets_plain)
  case Nil
  then show ?case by simp
next
  case (Cons row rows)
  obtain s t where "row = (s, t)" by (cases row)
  with Cons show ?case by (fastforce split: option.splits)
qed

lemma reencrypt_rows_fault:
  "n \<le> k \<Longrightarrow> k < n + length secrets_plain \<Longrightarrow>
     reencrypt_rows L fernet_new entropy (Some k) n secrets_plain db = Inl OperationalError \<or>
     reencrypt_rows L fernet_new entropy (Some k) n secrets_plain db = Inl UnicodeEncodeError"
proof (induction secrets_plain arbitrary: n db)
  case Nil
  then show ?case by simp
next
  case (Cons row rest)
  obtain service api_key where row: "row = (service, api_key)" by (cases row)
  show ?case
  proof (cases "utf8_encode L api_key")
    case None
    then show ?thesis by (simp add: row)
  next
    case (Some data)
    show ?thesis
    proof (cases "k = n")
      case True
      then show ?thesis by (simp add: row Some)
    next
      case False
      with Cons.prems have "Suc n \<le> k" "k < Suc n + length rest" by simp_all
      from Cons.IH [OF this] show ?thesis using False by (simp add: row Some)
    qed
  qed
qed

text \<open>
  For every library: when all rows decrypt, the new password is typed twice, the new
  key is derived and the storage layer raises on the \<^verbatim>\<open>UPDATE\<close> of a row, the
  rotation reports an error (that of the storage layer, or the \<^verbatim>\<open>UnicodeEncodeError\<close>
  of an earlier row) and returns the old \<^verbatim>\<open>Fernet\<close>, and what is committed then is the
  table of before with the new salt and iterations in \<^verbatim>\<open>meta\<close>.
\<close>

lemma rotation_fault_on_a_row:
  assumes "collect_plain L fernet_old (secrets (working conn)) [] = Inr (Inr secrets_plain)"
    and "new_pw_1 \<noteq> []" and "new_pw_2 = new_pw_1"
    and "derive_fernet_key L new_pw_1 new_salt KDF_ITERATIONS = Inr fernet_new"
    and "2 \<le> k" and "k < 2 + length (secrets (working conn))"
  shows "\<exists>e. (e = OperationalError \<or> e = UnicodeEncodeError) \<and>
           change_master_password L conn fernet_old new_pw_1 new_pw_2 new_salt entropy (Some k) =
           (Inr (ERROR_reencrypting_rows e, fernet_old),
            \<lparr>durable = update_meta ''iterations'' (str_int KDF_ITERATIONS)
                          (update_meta ''salt'' (b64encode L new_salt) (working conn)),
             working = update_meta ''iterations'' (str_int KDF_ITERATIONS)
                          (update_meta ''salt'' (b64encode L new_salt) (working conn))\<rparr>)"
proof -
  let ?db = "update_meta ''iterations'' (str_int KDF_ITERATIONS)
               (update_meta ''salt'' (b64encode L new_salt) (working conn))"
  from collect_plain_length [OF assms(1)] assms(6)
  have "k < 2 + length secrets_plain" by simp
  from reencrypt_rows_fault [OF assms(5) this, of L fernet_new entropy ?db]
  obtain e where e: "e = OperationalError \<or> e = UnicodeEncodeError"
    and rows: "reencrypt_rows L fernet_new entropy (Some k) 2 secrets_plain ?db = Inl e"
    by blast
  from assms(5) have "Some k \<noteq> Some 0" "Some k \<noteq> Some 1" by simp_all
  then have "change_master_password L conn fernet_old new_pw_1 new_pw_2 new_salt entropy (Some k) =
      (Inr (ERROR_reencrypting_rows e, fernet_old), \<lparr>durable = ?db, working = ?db\<rparr>)"
    using assms(1-4) rows
    by (simp add: change_master_password_def Let_def commit_def rollback_def)
  with e show ?thesis by blast
qed

text \<open>
  C2. When the old key does not open the token of some row, and every row it does open
  holds UTF-8 text, \<^verbatim>\<open>change_master_password\<close> stops in its first loop: it reports the
  service of a row that the key does not open, returns the old \<^verbatim>\<open>Fernet\<close>, and
  leaves the connection, committed and uncommitted state alike, as it was.
\<close>

theorem rotation_aborts_on_undecryptable_row:
  assumes "(service, token) \<in> set (secrets (working conn))"
    and "fernet_decrypt L fernet_old token = None"
    and "rows_hold_text L fernet_old (secrets (working conn))"
  shows "\<exists>s t. (s, t) \<in> set (secrets (working conn)) \<and> fernet_decrypt L fernet_old t = None \<and>
           change_master_password L conn fernet_old new_pw_1 new_pw_2 new_salt entropy fault =
             (Inr (Could_not_decrypt s, fernet_old), conn)"
proof -
  from collect_plain_aborts [OF assms, of "[]"]
  obtain s t where "(s, t) \<in> set (secrets (working conn))" "fernet_decrypt L fernet_old t = None"
    "collect_plain L fernet_old (secrets (working conn)) [] = Inr (Inl s)" by blast
  then show ?thesis by (auto simp: change_master_password_def)
qed

theorem rotation_aborts_on_undecryptable_row_witness:
  "((''openai'', ''tampered'') \<in> set (secrets (working demo_tampered)) \<and>
    fernet_decrypt toy_library demo_fernet_old ''tampered'' = None \<and>
    rows_hold_text toy_library demo_fernet_old (secrets (working demo_tampered))) \<and>
   (\<exists>s t. (s, t) \<in> set (secrets (working demo_tampered)) \<and>
      fernet_decrypt toy_library demo_fernet_old t = None \<and>
      change_master_password toy_library demo_tampered demo_fernet_old ''new'' ''new''
        demo_new_salt (\<lambda>n. ''iv'') None =
        (Inr (Could_not_decrypt s, demo_fernet_old), demo_tampered))"
proof -
  have row: "(''openai'', ''tampered'') \<in> set (secrets (working demo_tampered))"
    by (simp add: demo_tampered_secrets)
  have closed: "fernet_decrypt toy_library demo_fernet_old ''tampered'' = None"
    by (simp add: toy_library_def demo_fernet_old_def demo_salt_def)
  have utf8: "rows_hold_text toy_library demo_fernet_old (secrets (working demo_tampered))"
    by (simp add: rows_hold_text_def demo_tampered_secrets toy_library_def demo_fernet_old_def
        demo_salt_def)
  from rotation_aborts_on_undecryptable_row [OF row closed utf8, of "''new''" "''new''"
      demo_new_salt "\<lambda>n. ''iv''" None] row closed utf8
  show ?thesis by blast
qed

text \<open>
  C10. A rotation that reports success leaves \<open>200000\<close> as the stored iteration count,
  whatever count was stored before, and returns the key derived with 200000
  iterations.
\<close>

theorem rotation_stores_fixed_iterations:
  assumes "change_master_password L conn fernet_old new_pw_1 new_pw_2 new_salt entropy fault =
             (Inr (Master_password_updated, fernet_new), conn')"
    and "map_of (meta (working conn)) ''iterations'' = Some previous"
  shows "map_of (meta (durable conn')) ''iterations'' = Some ''200000'' \<and>
         map_of (meta (working conn')) ''iterations'' = Some ''200000'' \<and>
         derive_fernet_key L new_pw_1 new_salt 200000 = Inr fernet_new"
proof -
  from change_master_password_updated [OF assms(1)]
  obtain secrets_plain db where
    key: "derive_fernet_key L new_pw_1 new_salt KDF_ITERATIONS = Inr fernet_new"
    and rows: "reencrypt_rows L fernet_new entropy fault 2 secrets_plain
             (update_meta ''iterations'' (str_int KDF_ITERATIONS)
                (update_meta ''salt'' (b64encode L new_salt) (working conn))) = Inr db"
    and conn': "durable conn' = db" "working conn' = db"
    by blast
  from assms(2) have "''iterations'' \<in> fst ` set (meta (working conn))"
    by (metis domI dom_map_of_conv_image_fst)
  then have "''iterations'' \<in> fst ` set (meta (update_meta ''salt'' (b64encode L new_salt) (working conn)))"
    by (metis (no_types, lifting) domIff dom_map_of_conv_image_fst map_of_meta_update_meta option.distinct(1) assms(2))
  then have "map_of (meta db) ''iterations'' = Some (str_int KDF_ITERATIONS)"
    using reencrypt_rows_meta [OF rows] by (simp add: map_of_meta_update_meta)
  then show ?thesis
    using key conn' by (simp add: str_int_KDF_ITERATIONS) (simp add: KDF_ITERATIONS_def)
qed

theorem rotation_stores_fixed_iterations_witness:
  "(change_master_password toy_library demo_conn_1000 demo_fernet_old ''new'' ''new''
      demo_new_salt (\<lambda>n. ''iv'') None =
      (Inr (Master_password_updated, ''new'' @ demo_new_salt), snd demo_rotation) \<and>
    map_of (meta (working demo_conn_1000)) ''iterations'' = Some ''1000'') \<and>
   map_of (meta (durable (snd demo_rotation))) ''iterations'' = Some ''200000'' \<and>
   map_of (meta (working (snd demo_rotation))) ''iterations'' = Some ''200000'' \<and>
   derive_fernet_key toy_library ''new'' demo_new_salt 200000 = Inr (''new'' @ demo_new_salt)"
proof -
  have run: "change_master_password toy_library demo_conn_1000 demo_fernet_old ''new'' ''new''
      demo_new_salt (\<lambda>n. ''iv'') None =
      (Inr (Master_password_updated, ''new'' @ demo_new_salt), snd demo_rotation)"
    using demo_rotation_eq by (simp add: demo_rotation_def)
  have before: "map_of (meta (working demo_conn_1000)) ''iterations'' = Some ''1000''"
    by (simp add: demo_conn_1000_eq)
  from rotation_stores_fixed_iterations [OF run before] run before
  show ?thesis by blast
qed

text \<open>
  C1. The example rotation, in which the \<^verbatim>\<open>UPDATE\<close> of the second row fails: the
  function reports the error and returns the old \<^verbatim>\<open>Fernet\<close>, the salt of the new
  password is committed, the rows are still the tokens of the old key, and neither the
  old nor the new password derives, with the stored salt, a key that opens them. The
  claim asks for the vault of before the rotation, with the old salt.
\<close>

theorem failed_rotation_leaves_new_salt_over_old_rows:
  "fst demo_failed_rotation = Inr (ERROR_reencrypting_rows OperationalError, demo_fernet_old) \<and>
   get_params toy_library demo_conn = Inr (demo_salt, 200000) \<and>
   get_params toy_library (snd demo_failed_rotation) = Inr (demo_new_salt, 200000) \<and>
   demo_new_salt \<noteq> demo_salt \<and>
   durable (snd demo_failed_rotation) = working (snd demo_failed_rotation) \<and>
   secrets (durable (snd demo_failed_rotation)) = secrets (durable demo_conn) \<and>
   retrieve_service toy_library (snd demo_failed_rotation) demo_fernet_old ''github'' =
     Inr (API_key ''ghp_abc123'') \<and>
   derive_fernet_key toy_library ''old'' demo_new_salt 200000 = Inr (''old'' @ demo_new_salt) \<and>
   retrieve_service toy_library (snd demo_failed_rotation) (''old'' @ demo_new_salt) ''github'' =
     Inr Wrong_password_or_corrupted_data \<and>
   derive_fernet_key toy_library ''new'' demo_new_salt 200000 = Inr (''new'' @ demo_new_salt) \<and>
   retrieve_service toy_library (snd demo_failed_rotation) (''new'' @ demo_new_salt) ''github'' =
     Inr Wrong_password_or_corrupted_data"
  by (simp add: demo_failed_rotation_eq demo_conn_eq get_params_def retrieve_service_def
      derive_fernet_key_def toy_library_def toy_int_def toy_number_def digit_of_def
      demo_fernet_old_def demo_salt_def demo_new_salt_def)

text \<open>
  C8. Choice 4 of the menu, for a non-empty name and a confirmed prompt: it reports
  \<open>Deleted\<close> exactly when the table has a row of that name and \<open>Not found\<close> exactly
  when it has none; afterwards retrieving the name reports \<open>NOT FOUND\<close>, retrieving
  any other name gives what it gave before, the table is unchanged when there was no
  such row, \<^verbatim>\<open>meta\<close> is unchanged, and the deletion is committed.
\<close>

theorem delete_service_removes_the_row:
  assumes "svc \<noteq> []"
  shows "(fst (delete_service conn svc True) = Deleted \<longleftrightarrow>
            svc \<in> fst ` set (secrets (working conn))) \<and>
         (fst (delete_service conn svc True) = Not_found \<longleftrightarrow>
            svc \<notin> fst ` set (secrets (working conn))) \<and>
         retrieve_service L (snd (delete_service conn svc True)) fernet svc = Inr NOT_FOUND \<and>
         (\<forall>other. other \<noteq> svc \<longrightarrow>
            retrieve_service L (snd (delete_service conn svc True)) fernet other =
              retrieve_service L conn fernet other) \<and>
         (svc \<notin> fst ` set (secrets (working conn)) \<longrightarrow>
            working (snd (delete_service conn svc True)) = working conn) \<and>
         meta (working (snd (delete_service conn svc True))) = meta (working conn) \<and>
         durable (snd (delete_service conn svc True)) =
           working (snd (delete_service conn svc True))"
proof -
  have conn': "snd (delete_service conn svc True) =
      commit (conn\<lparr>working := delete_secret svc (working conn)\<rparr>)"
    and report: "fst (delete_service conn svc True) =
      (if delete_rowcount svc (working conn) \<noteq> 0 then Deleted else Not_found)"
    using assms by (simp_all add: delete_service_def Let_def)
  have rows: "secrets (working (snd (delete_service conn svc True))) =
      filter (\<lambda>(s, c). s \<noteq> svc) (secrets (working conn))"
    by (simp add: conn' commit_def delete_secret_def)
  have "fst (delete_service conn svc True) = Deleted \<longleftrightarrow>
      svc \<in> fst ` set (secrets (working conn))"
    using delete_rowcount_eq_0 [of svc "working conn"] by (simp add: report)
  moreover have "fst (delete_service conn svc True) = Not_found \<longleftrightarrow>
      svc \<notin> fst ` set (secrets (working conn))"
    using delete_rowcount_eq_0 [of svc "working conn"] by (simp add: report)
  moreover have "retrieve_service L (snd (delete_service conn svc True)) fernet svc = Inr NOT_FOUND"
    by (simp add: retrieve_service_def rows map_of_delete_row)
  moreover have "\<forall>other. other \<noteq> svc \<longrightarrow>
      retrieve_service L (snd (delete_service conn svc True)) fernet other =
        retrieve_service L conn fernet other"
    by (simp add: retrieve_service_def rows map_of_delete_row)
  moreover have "svc \<notin> fst ` set (secrets (working conn)) \<longrightarrow>
      working (snd (delete_service conn svc True)) = working conn"
    by (simp add: conn' commit_def delete_secret_absent)
  moreover have "meta (working (snd (delete_service conn svc True))) = meta (working conn)"
    by (simp add: conn' commit_def delete_secret_def)
  moreover have "durable (snd (delete_service conn svc True)) =
      working (snd (delete_service conn svc True))"
    by (simp add: conn' commit_def)
  ultimately show ?thesis by blast
qed

theorem delete_service_removes_the_row_witness:
  "''github'' \<noteq> [] \<and> ''github'' \<in> fst ` set (secrets (working demo_conn)) \<and>
   fst (delete_service demo_conn ''github'' True) = Deleted \<and>
   retrieve_service toy_library demo_conn demo_fernet_old ''github'' = Inr (API_key ''ghp_abc123'') \<and>
   retrieve_service toy_library (snd (delete_service demo_conn ''github'' True)) demo_fernet_old
     ''github'' = Inr NOT_FOUND \<and>
   retrieve_service toy_library (snd (delete_service demo_conn ''github'' True)) demo_fernet_old
     ''openai'' = Inr (API_key ''sk-xyz'') \<and>
   ''gitlab'' \<notin> fst ` set (secrets (working demo_conn)) \<and>
   fst (delete_service demo_conn ''gitlab'' True) = Not_found \<and>
   working (snd (delete_service demo_conn ''gitlab'' True)) = working demo_conn"
proof -
  have ne: "''github'' \<noteq> []" "''gitlab'' \<noteq> []" by simp_all
  have present: "''github'' \<in> fst ` set (secrets (working demo_conn))"
    and absent: "''gitlab'' \<notin> fst ` set (secrets (working demo_conn))"
    by (simp_all add: demo_secrets)
  have before: "retrieve_service toy_library demo_conn demo_fernet_old ''github'' =
      Inr (API_key ''ghp_abc123'')"
    "retrieve_service toy_library demo_conn demo_fernet_old ''openai'' = Inr (API_key ''sk-xyz'')"
    by (simp_all add: retrieve_service_def demo_secrets toy_library_def)
  have other: "''openai'' \<noteq> ''github''" by simp
  from delete_service_removes_the_row [OF ne(1), of demo_conn toy_library demo_fernet_old]
    delete_service_removes_the_row [OF ne(2), of demo_conn toy_library demo_fernet_old]
    ne present absent before other
  show ?thesis by metis
qed

end
